theory Spec2Isabelle
  imports Main "HOL-Library.Word"
begin

unbundle bit_operations_syntax

section \<open>tkvdb: the radix-trie key-value store of \<^verbatim>\<open>tkvdb.c\<close>\<close>

text \<open>
  The C program is embedded with an explicit store.  A pointer is an address
  (\<open>nat\<close>), \<open>NULL\<close> is \<open>None\<close>; the trie nodes live in \<open>heap\<close>, database
  handles in \<open>dbs\<close>, open files in \<open>files\<close>.  A function of the source becomes a
  function from the store (and the objects it is handed) to an \<open>outcome\<close>:
  \<open>Crash\<close> is an access the C standard leaves undefined (null or dangling
  pointer, a read or write outside the object), \<open>Done\<close> carries what the
  function returns together with the updated store.  Functions that contain a loop
  whose termination depends on the shape of the heap are partial
  (\<open>None\<close>: the loop does not return).

  Sizes (\<open>size_t\<close>) are \<open>nat\<close>; they count bytes of objects that exist in
  memory and stay far below \<open>2^64\<close>.  Values read from the file (\<open>uint64_t\<close>,
  \<open>uint32_t\<close>) are words, and their arithmetic wraps.  The layout constants are
  those of an LP64 little-endian target.
\<close>

type_synonym byte = "8 word"
type_synonym u64 = "64 word"
type_synonym u32 = "32 word"

datatype TKVDB_RES =
    TKVDB_OK
  | TKVDB_IO_ERROR
  | TKVDB_LOCKED
  | TKVDB_EMPTY
  | TKVDB_NOT_FOUND
  | TKVDB_ENOMEM
  | TKVDB_CORRUPTED
  | TKVDB_NOT_STARTED
  | TKVDB_MODIFIED

datatype TKVDB_SEEK = TKVDB_SEEK_EQ | TKVDB_SEEK_LE | TKVDB_SEEK_GE

datatype 'a outcome = Crash | Done 'a

subsection \<open>Constants\<close>

definition TKVDB_SIGNATURE :: "byte list" where
  "TKVDB_SIGNATURE = [116, 107, 118, 100, 98, 48, 48, 51]"

definition TKVDB_BLOCKTYPE_TRANSACTION :: byte where "TKVDB_BLOCKTYPE_TRANSACTION = 0"
definition TKVDB_BLOCKTYPE_FOOTER :: byte where "TKVDB_BLOCKTYPE_FOOTER = 1"
definition TKVDB_BLOCKTYPE_RM_FOOTER :: byte where "TKVDB_BLOCKTYPE_RM_FOOTER = 2"

definition TKVDB_NODE_VAL :: int where "TKVDB_NODE_VAL = 1"
definition TKVDB_NODE_META :: int where "TKVDB_NODE_META = 2"

definition TKVDB_SUBNODES_THR :: nat where "TKVDB_SUBNODES_THR = 256 - 256 div 8"
definition TKVDB_READ_SIZE :: nat where "TKVDB_READ_SIZE = 4096"
definition TKVDB_STACK_MAX_DEPTH :: nat where "TKVDB_STACK_MAX_DEPTH = 128"

text \<open>\<open>sizeof\<close> of the structures: the three on-disk ones are packed.\<close>

definition sizeof_tr_header :: nat where "sizeof_tr_header = 9"
definition TKVDB_TR_FTRSIZE :: nat where "TKVDB_TR_FTRSIZE = 49"
definition sizeof_disknode :: nat where "sizeof_disknode = 12"
definition sizeof_memnode :: nat where "sizeof_memnode = 4168"

subsection \<open>Data\<close>

record tkvdb_datum =
  data :: "byte list"
  len :: nat

record tkvdb_params =
  write_buf_limit :: nat
  write_buf_dynalloc :: bool
  p_tr_buf_limit :: nat
  p_tr_buf_dynalloc :: bool

record tkvdb_tr_footer =
  f_type :: byte
  signature :: "byte list"
  root_off :: u64
  transaction_size :: u64
  transaction_id :: u64
  gap_begin :: u64
  gap_end :: u64

record tkvdb_db_info =
  footer :: tkvdb_tr_footer
  filesize :: u64

record tkvdb =
  fd :: nat
  info :: tkvdb_db_info
  params :: tkvdb_params
  write_buf :: "byte list option"
  write_buf_allocated :: nat

record tkvdb_memnode =
  ntype :: int
  prefix_size :: nat
  val_size :: nat
  meta_size :: nat
  disk_size :: u64
  disk_off :: u64
  nsubnodes :: nat
  replaced_by :: "nat option"
  nxt :: "nat \<Rightarrow> nat option"
  fnext :: "nat \<Rightarrow> u64"
  prefix_val_meta :: "byte list"

record tkvdb_tr =
  db :: "nat option"
  root :: "nat option"
  started :: bool
  tr_buf :: "nat option"
  tr_buf_allocated :: nat
  tr_buf_ptr :: "nat option"
  tr_buf_limit :: nat
  tr_buf_dynalloc :: bool

record tkvdb_visit_helper =
  vh_node :: nat
  vh_off :: int

record tkvdb_cursor =
  stack_size :: nat
  stack :: "nat \<Rightarrow> tkvdb_visit_helper"
  c_prefix_size :: nat
  c_prefix :: "byte list option"
  c_val_size :: nat
  c_val :: "(nat \<times> nat) option"

text \<open>
  An open file: its bytes and the position of the descriptor.  The store: the
  trie nodes by address, the blocks handed out by \<open>malloc\<close> (start and size), the
  next address \<open>malloc\<close> uses, the bytes it can still hand out, the database
  handles and the open descriptors.
\<close>

record open_file =
  contents :: "byte list"
  pos :: nat

record world =
  heap :: "nat \<Rightarrow> tkvdb_memnode option"
  allocs :: "nat \<Rightarrow> nat option"
  brk :: nat
  mem_avail :: nat
  dbs :: "nat \<Rightarrow> tkvdb option"
  files :: "nat \<Rightarrow> open_file option"

subsection \<open>The C library and the system calls\<close>

definition align16 :: "nat \<Rightarrow> nat" where
  "align16 p = ((p + 16 - 1) div 16) * 16"

definition malloc :: "world \<Rightarrow> nat \<Rightarrow> nat option \<times> world" where
  "malloc w n =
     (if n > mem_avail w then (None, w)
      else let p = align16 (brk w)
           in (Some p, w\<lparr>allocs := (allocs w)(p \<mapsto> n), brk := p + max n 1,
                          mem_avail := mem_avail w - n\<rparr>))"

text \<open>\<open>free\<close> of an address that \<open>malloc\<close> did not return is undefined; a freed
  block takes the nodes stored in it along.\<close>

definition free :: "world \<Rightarrow> nat \<Rightarrow> world outcome" where
  "free w p =
     (case allocs w p of
        None \<Rightarrow> Crash
      | Some n \<Rightarrow>
          Done (w\<lparr>heap := (\<lambda>a. if p \<le> a \<and> a < p + max n 1 then None else heap w a),
                  allocs := (allocs w)(p := None),
                  mem_avail := mem_avail w + n\<rparr>))"

definition sys_fstat :: "world \<Rightarrow> nat \<Rightarrow> nat option" where
  "sys_fstat w d = (case files w d of None \<Rightarrow> None | Some f \<Rightarrow> Some (length (contents f)))"

definition sys_lseek :: "world \<Rightarrow> nat \<Rightarrow> int \<Rightarrow> int \<times> world" where
  "sys_lseek w d off =
     (case files w d of
        None \<Rightarrow> (- 1, w)
      | Some f \<Rightarrow>
          if off < 0 then (- 1, w)
          else (off, w\<lparr>files := (files w)(d \<mapsto> f\<lparr>pos := nat off\<rparr>)\<rparr>))"

definition sys_read :: "world \<Rightarrow> nat \<Rightarrow> nat \<Rightarrow> int \<times> byte list \<times> world" where
  "sys_read w d n =
     (case files w d of
        None \<Rightarrow> (- 1, [], w)
      | Some f \<Rightarrow>
          let bs = take n (drop (pos f) (contents f))
          in (int (length bs), bs,
              w\<lparr>files := (files w)(d \<mapsto> f\<lparr>pos := pos f + length bs\<rparr>)\<rparr>))"

text \<open>A write on an open descriptor is taken to complete in full; a position
  beyond the end of the file leaves a hole of zero bytes.\<close>

definition sys_write :: "world \<Rightarrow> nat \<Rightarrow> byte list \<Rightarrow> int \<times> world" where
  "sys_write w d bs =
     (case files w d of
        None \<Rightarrow> (- 1, w)
      | Some f \<Rightarrow>
          let old = contents f;
              padded = old @ replicate (pos f - length old) 0;
              new = take (pos f) padded @ bs @ drop (pos f + length bs) padded
          in (int (length bs),
              w\<lparr>files := (files w)(d \<mapsto> \<lparr>contents = new, pos = pos f + length bs\<rparr>)\<rparr>))"

text \<open>Reading \<open>n\<close> bytes at offset \<open>off\<close> of a memory object: \<open>None\<close> when the
  range leaves the object.\<close>

definition memread :: "byte list \<Rightarrow> nat \<Rightarrow> nat \<Rightarrow> byte list option" where
  "memread buf off n = (if off + n \<le> length buf then Some (take n (drop off buf)) else None)"

definition byte_at :: "byte list \<Rightarrow> nat \<Rightarrow> byte option" where
  "byte_at buf i = (if i < length buf then Some (buf ! i) else None)"

definition memwrite :: "byte list \<Rightarrow> nat \<Rightarrow> byte list \<Rightarrow> byte list option" where
  "memwrite buf off bs =
     (if off + length bs \<le> length buf
      then Some (take off buf @ bs @ drop (off + length bs) buf) else None)"

text \<open>Little-endian integers in a byte buffer.\<close>

fun le_decode :: "byte list \<Rightarrow> nat" where
  "le_decode [] = 0"
| "le_decode (b # bs) = unat b + 256 * le_decode bs"

fun le_encode :: "nat \<Rightarrow> nat \<Rightarrow> byte list" where
  "le_encode 0 v = []"
| "le_encode (Suc k) v = of_nat (v mod 256) # le_encode k (v div 256)"


text \<open>A local array on the C stack that a \<open>read\<close> filled only in part: the
  bytes beyond what was read are indeterminate in C and are taken as zero.\<close>

definition stack_bytes :: "byte list \<Rightarrow> nat \<Rightarrow> nat \<Rightarrow> byte list" where
  "stack_bytes bs off n = map (\<lambda>i. if i < length bs then bs ! i else 0) [off..<off + n]"

definition set_node :: "world \<Rightarrow> nat \<Rightarrow> tkvdb_memnode \<Rightarrow> world" where
  "set_node w a n = w\<lparr>heap := (heap w)(a \<mapsto> n)\<rparr>"

definition has_flag :: "int \<Rightarrow> int \<Rightarrow> bool" where
  "has_flag t f = (t AND f \<noteq> 0)"

subsection \<open>Footer of the file: \<open>tkvdb_info_read\<close>\<close>

definition encode_footer :: "tkvdb_tr_footer \<Rightarrow> byte list" where
  "encode_footer f =
     f_type f # take 8 (signature f @ replicate 8 0)
       @ le_encode 8 (unat (root_off f))
       @ le_encode 8 (unat (transaction_size f))
       @ le_encode 8 (unat (transaction_id f))
       @ le_encode 8 (unat (gap_begin f))
       @ le_encode 8 (unat (gap_end f))"

definition decode_footer :: "byte list \<Rightarrow> tkvdb_tr_footer" where
  "decode_footer bs =
     \<lparr>f_type = hd bs,
      signature = take 8 (drop 1 bs),
      root_off = of_nat (le_decode (take 8 (drop 9 bs))),
      transaction_size = of_nat (le_decode (take 8 (drop 17 bs))),
      transaction_id = of_nat (le_decode (take 8 (drop 25 bs))),
      gap_begin = of_nat (le_decode (take 8 (drop 33 bs))),
      gap_end = of_nat (le_decode (take 8 (drop 41 bs)))\<rparr>"

text \<open>\<open>info\<close> is the structure the caller hands in; a short read overwrites the
  first bytes of its footer only.\<close>

definition tkvdb_info_read ::
  "world \<Rightarrow> nat \<Rightarrow> tkvdb_db_info \<Rightarrow> TKVDB_RES \<times> tkvdb_db_info \<times> world" where
  "tkvdb_info_read w d info0 =
     (case sys_fstat w d of
        None \<Rightarrow> (TKVDB_IO_ERROR, info0, w)
      | Some st_size \<Rightarrow>
          let inf1 = info0\<lparr>filesize := of_nat st_size\<rparr>
          in if filesize inf1 = 0 then (TKVDB_OK, inf1, w)
             else if filesize inf1 \<le> of_nat TKVDB_TR_FTRSIZE then (TKVDB_CORRUPTED, inf1, w)
             else
               let footer_pos = sint (filesize inf1 - of_nat TKVDB_TR_FTRSIZE)
               in case sys_lseek w d footer_pos of
                    (sk, w1) \<Rightarrow>
                      if sk \<noteq> footer_pos then (TKVDB_IO_ERROR, inf1, w1)
                      else
                        case sys_read w1 d TKVDB_TR_FTRSIZE of
                          (io_res, bs, w2) \<Rightarrow>
                            let raw = bs @ drop (length bs) (encode_footer (footer inf1));
                                inf2 = inf1\<lparr>footer := decode_footer raw\<rparr>
                            in if io_res < int TKVDB_TR_FTRSIZE then (TKVDB_IO_ERROR, inf2, w2)
                               else if signature (footer inf2) \<noteq> TKVDB_SIGNATURE
                                 then (TKVDB_CORRUPTED, inf2, w2)
                               else if transaction_size (footer inf2) > word_of_int footer_pos
                                 then (TKVDB_CORRUPTED, inf2, w2)
                               else (TKVDB_OK, inf2, w2))"

subsection \<open>Node arena: \<open>tkvdb_node_alloc\<close>, \<open>tkvdb_node_new\<close>\<close>

text \<open>In the preallocated mode the bump pointer is rounded up to a multiple of
  16 and advanced; only \<open>tr_buf_allocated + node_size\<close> is compared with the
  limit.\<close>

definition tkvdb_node_alloc ::
  "world \<Rightarrow> tkvdb_tr \<Rightarrow> nat \<Rightarrow> (nat option \<times> world \<times> tkvdb_tr) outcome" where
  "tkvdb_node_alloc w tr node_size =
     (if tr_buf_allocated tr + node_size > tr_buf_limit tr then Done (None, w, tr)
      else if tr_buf_dynalloc tr then
        (case malloc w node_size of
           (None, w1) \<Rightarrow> Done (None, w1, tr)
         | (Some node, w1) \<Rightarrow>
             Done (Some node, w1, tr\<lparr>tr_buf_allocated := tr_buf_allocated tr + node_size\<rparr>))
      else
        (case tr_buf_ptr tr of
           None \<Rightarrow> Crash
         | Some p \<Rightarrow>
             let node = align16 p
             in Done (Some node, w,
                      tr\<lparr>tr_buf_ptr := Some (node + node_size),
                         tr_buf_allocated := tr_buf_allocated tr + node_size\<rparr>)))"

text \<open>Initialising a node at \<open>node\<close>: the source writes the fields in front
  of \<open>prefix_val_meta\<close> (the first 4160 bytes of the structure) and the prefix
  and value bytes behind them.  A node from \<open>malloc\<close> owns its block; a node
  taken from the preallocated buffer must lie inside it, a write beyond its end
  is a buffer overflow.\<close>

definition offsetof_prefix_val_meta :: nat where "offsetof_prefix_val_meta = 4160"

definition node_store :: "world \<Rightarrow> tkvdb_tr \<Rightarrow> nat \<Rightarrow> tkvdb_memnode \<Rightarrow> world outcome" where
  "node_store w tr node n =
     (if tr_buf_dynalloc tr then Done (set_node w node n)
      else
        (case tr_buf tr of
           None \<Rightarrow> Crash
         | Some base \<Rightarrow>
             if base \<le> node
                \<and> node + offsetof_prefix_val_meta + length (prefix_val_meta n)
                    \<le> base + tr_buf_limit tr
             then Done (set_node w node n) else Crash))"

text \<open>\<open>prefix\<close> and \<open>val\<close> are the memory the two source pointers point to;
  \<open>nsubnodes\<close> is left uninitialised by the source and is computed before its
  first use.\<close>

definition tkvdb_node_new ::
  "world \<Rightarrow> tkvdb_tr \<Rightarrow> int \<Rightarrow> nat \<Rightarrow> byte list \<Rightarrow> nat \<Rightarrow> byte list
     \<Rightarrow> (nat option \<times> world \<times> tkvdb_tr) outcome" where
  "tkvdb_node_new w tr type psize prefix vlen val =
     (let node_size = sizeof_memnode + psize + vlen
      in case tkvdb_node_alloc w tr node_size of
           Crash \<Rightarrow> Crash
         | Done (None, w1, tr1) \<Rightarrow> Done (None, w1, tr1)
         | Done (Some node, w1, tr1) \<Rightarrow>
             (case memread prefix 0 psize of
                None \<Rightarrow> Crash
              | Some pb \<Rightarrow>
                  (case memread val 0 vlen of
                     None \<Rightarrow> Crash
                   | Some vb \<Rightarrow>
                       (case node_store w1 tr1 node
                               \<lparr>ntype = type, prefix_size = psize, val_size = vlen,
                                meta_size = 0, disk_size = 0, disk_off = 0, nsubnodes = 0,
                                replaced_by = None, nxt = (\<lambda>_. None), fnext = (\<lambda>_. 0),
                                prefix_val_meta = pb @ vb\<rparr> of
                          Crash \<Rightarrow> Crash
                        | Done w2 \<Rightarrow> Done (Some node, w2, tr1)))))"

definition tkvdb_clone_subnodes :: "world \<Rightarrow> nat \<Rightarrow> nat \<Rightarrow> world outcome" where
  "tkvdb_clone_subnodes w dst src =
     (case heap w dst of
        None \<Rightarrow> Crash
      | Some d \<Rightarrow>
          (case heap w src of
             None \<Rightarrow> Crash
           | Some s \<Rightarrow> Done (set_node w dst (d\<lparr>nxt := nxt s, fnext := fnext s\<rparr>))))"

definition TKVDB_REPLACE_NODE :: "world \<Rightarrow> nat \<Rightarrow> nat \<Rightarrow> world outcome" where
  "TKVDB_REPLACE_NODE w node newnode =
     (case heap w node of
        None \<Rightarrow> Crash
      | Some n \<Rightarrow> Done (set_node w node (n\<lparr>replaced_by := Some newnode\<rparr>)))"

partial_function (option) TKVDB_SKIP_RNODES :: "world \<Rightarrow> nat \<Rightarrow> nat outcome option" where
  "TKVDB_SKIP_RNODES w node =
     (case heap w node of
        None \<Rightarrow> Some Crash
      | Some n \<Rightarrow>
          (case replaced_by n of
             None \<Rightarrow> Some (Done node)
           | Some r \<Rightarrow> TKVDB_SKIP_RNODES w r))"

text \<open>\<open>node->next[off] = p\<close>.\<close>

definition set_next :: "world \<Rightarrow> nat \<Rightarrow> nat \<Rightarrow> nat option \<Rightarrow> world outcome" where
  "set_next w node off p =
     (case heap w node of
        None \<Rightarrow> Crash
      | Some n \<Rightarrow> Done (set_node w node (n\<lparr>nxt := (nxt n)(off := p)\<rparr>)))"


subsection \<open>Reading a node from the file: \<open>tkvdb_node_read\<close>\<close>

text \<open>The compact child table of a disk node: \<open>k\<close> symbols, then \<open>k\<close> offsets.\<close>

fun read_subnodes :: "byte list \<Rightarrow> nat \<Rightarrow> nat \<Rightarrow> nat \<Rightarrow> (nat \<Rightarrow> u64) \<Rightarrow> (nat \<Rightarrow> u64)" where
  "read_subnodes bs ptr offptr 0 fn = fn"
| "read_subnodes bs ptr offptr (Suc k) fn =
     read_subnodes bs (ptr + 1) (offptr + 8) k
       (fn(le_decode (stack_bytes bs ptr 1) := of_nat (le_decode (stack_bytes bs offptr 8))))"

text \<open>
  The result carries what the source stores through \<open>node_ptr\<close>.  The size
  arithmetic is that of \<open>size_t\<close> and wraps on a node whose declared size is too
  small; the copy out of the 4096-byte block then leaves the block.  For a node
  larger than the block the source reads the rest of it to the end of the
  block, that is, behind the local array.
\<close>

definition tkvdb_node_read ::
  "world \<Rightarrow> tkvdb_tr \<Rightarrow> u64 \<Rightarrow> (TKVDB_RES \<times> nat option \<times> world \<times> tkvdb_tr) outcome" where
  "tkvdb_node_read w tr off =
     (case db tr of
        None \<Rightarrow> Crash
      | Some dp \<Rightarrow>
     (case dbs w dp of
        None \<Rightarrow> Crash
      | Some d \<Rightarrow>
     (case sys_lseek w (fd d) (sint off) of
        (sk, w1) \<Rightarrow>
     if sk \<noteq> sint off then Done (TKVDB_IO_ERROR, None, w1, tr)
     else
     (case sys_read w1 (fd d) TKVDB_READ_SIZE of
        (read_res, bs, w2) \<Rightarrow>
     if read_res < 0 then Done (TKVDB_IO_ERROR, None, w2, tr)
     else
       let dn_size = (of_nat (le_decode (stack_bytes bs 0 4)) :: u32);
           dn_type = int (le_decode (stack_bytes bs 4 1));
           dn_nsubnodes = le_decode (stack_bytes bs 5 2);
           dn_prefix_size = le_decode (stack_bytes bs 7 4)
       in
       if (word_of_int read_res :: u32) < dn_size \<and> unat dn_size < TKVDB_READ_SIZE
       then Done (TKVDB_IO_ERROR, None, w2, tr)
       else
         let s0 = (ucast dn_size :: u64) - of_nat sizeof_disknode + 1;
             s1 = (if has_flag dn_type TKVDB_NODE_VAL then s0 - 4 else s0);
             s2 = (if has_flag dn_type TKVDB_NODE_META then s1 - 4 else s1);
             prefix_val_meta_size =
               (if dn_nsubnodes > TKVDB_SUBNODES_THR then s2 - 256 * 8
                else s2 - of_nat dn_nsubnodes - of_nat dn_nsubnodes * 8);
             node_size = unat ((of_nat sizeof_memnode :: u64) + prefix_val_meta_size)
         in
         (case tkvdb_node_alloc w2 tr node_size of
            Crash \<Rightarrow> Crash
          | Done (None, w3, tr1) \<Rightarrow> Done (TKVDB_ENOMEM, None, w3, tr1)
          | Done (Some node, w3, tr1) \<Rightarrow>
              let ptr0 = sizeof_disknode - 1;
                  vsize = (if has_flag dn_type TKVDB_NODE_VAL
                           then le_decode (stack_bytes bs ptr0 4) else 0);
                  ptr1 = (if has_flag dn_type TKVDB_NODE_VAL then ptr0 + 4 else ptr0);
                  msize = (if has_flag dn_type TKVDB_NODE_META
                           then le_decode (stack_bytes bs ptr1 4) else 0);
                  ptr2 = (if has_flag dn_type TKVDB_NODE_META then ptr1 + 4 else ptr1);
                  fn = (if dn_nsubnodes > TKVDB_SUBNODES_THR
                        then (\<lambda>i. if i < 256
                                   then of_nat (le_decode (stack_bytes bs (ptr2 + 8 * i) 8))
                                   else 0)
                        else read_subnodes bs ptr2 (ptr2 + dn_nsubnodes) dn_nsubnodes (\<lambda>_. 0));
                  ptr3 = (if dn_nsubnodes > TKVDB_SUBNODES_THR then ptr2 + 256 * 8
                          else ptr2 + dn_nsubnodes + dn_nsubnodes * 8);
                  mk = (\<lambda>pvm. \<lparr>ntype = dn_type, prefix_size = dn_prefix_size,
                                 val_size = vsize, meta_size = msize,
                                 disk_size = 0, disk_off = 0, nsubnodes = 0,
                                 replaced_by = None, nxt = (\<lambda>_. None), fnext = fn,
                                 prefix_val_meta = pvm\<rparr>)
              in
              if unat dn_size > TKVDB_READ_SIZE then
                let blk_tail = (ucast dn_size :: u64) - prefix_val_meta_size;
                    n1 = unat ((of_nat TKVDB_READ_SIZE :: u64) - blk_tail);
                    rest = unat ((ucast dn_size :: u64) - of_nat n1)
                in
                if ptr3 + n1 > TKVDB_READ_SIZE \<or> n1 > unat prefix_val_meta_size then Crash
                else
                  (case sys_read w3 (fd d) rest of
                     (r2, bs2, w4) \<Rightarrow>
                       if ptr3 + n1 + length bs2 > TKVDB_READ_SIZE then Crash
                       else
                         (case node_store w4 tr1 node
                                 (mk (stack_bytes bs ptr3 n1
                                      @ replicate (unat prefix_val_meta_size - n1) 0)) of
                            Crash \<Rightarrow> Crash
                          | Done w5 \<Rightarrow> Done (TKVDB_OK, Some node, w5, tr1)))
              else
                if ptr3 + unat prefix_val_meta_size > TKVDB_READ_SIZE then Crash
                else
                  (case node_store w3 tr1 node
                          (mk (stack_bytes bs ptr3 (unat prefix_val_meta_size))) of
                     Crash \<Rightarrow> Crash
                   | Done w4 \<Rightarrow> Done (TKVDB_OK, Some node, w4, tr1)))))))"

subsection \<open>Freeing a subtree: \<open>tkvdb_node_free\<close>\<close>

text \<open>\<open>for (; off < 256; off++) if (node->next[off]) break;\<close>\<close>

function scan_next :: "(nat \<Rightarrow> nat option) \<Rightarrow> nat \<Rightarrow> nat" where
  "scan_next nx off = (if off < 256 then (if nx off \<noteq> None then off else scan_next nx (off + 1)) else off)"
  by pat_completeness auto
termination
  by (relation "measure (\<lambda>(nx, off). 256 - off)") auto

partial_function (option) tkvdb_node_free_loop ::
  "world \<Rightarrow> nat \<Rightarrow> nat \<Rightarrow> nat \<Rightarrow> (nat \<Rightarrow> tkvdb_visit_helper) \<Rightarrow> world outcome option" where
  "tkvdb_node_free_loop w node off ssize stk =
     (case heap w node of
        None \<Rightarrow> Some Crash
      | Some n \<Rightarrow>
          (case replaced_by n of
             Some r \<Rightarrow>
               (case free w node of
                  Crash \<Rightarrow> Some Crash
                | Done w1 \<Rightarrow> tkvdb_node_free_loop w1 r off ssize stk)
           | None \<Rightarrow>
               let off1 = scan_next (nxt n) off
               in (case (if off1 < 256 then nxt n off1 else None) of
                     Some nx \<Rightarrow>
                       if ssize \<ge> TKVDB_STACK_MAX_DEPTH then Some Crash
                       else tkvdb_node_free_loop w nx 0 (ssize + 1)
                              (stk(ssize := \<lparr>vh_node = node, vh_off = int off1\<rparr>))
                   | None \<Rightarrow>
                       if ssize < 1 then Some (free w node)
                       else
                         (case free w node of
                            Crash \<Rightarrow> Some Crash
                          | Done w1 \<Rightarrow>
                              tkvdb_node_free_loop w1 (vh_node (stk (ssize - 1)))
                                (nat (vh_off (stk (ssize - 1))) + 1) (ssize - 1) stk))))"

definition tkvdb_node_free :: "world \<Rightarrow> nat \<Rightarrow> world outcome option" where
  "tkvdb_node_free w node =
     tkvdb_node_free_loop w node 0 0 (\<lambda>_. \<lparr>vh_node = 0, vh_off = 0\<rparr>)"


subsection \<open>\<open>tkvdb_put\<close>\<close>

text \<open>\<open>tr->db && tr->db->info.filesize > 0\<close>\<close>

definition db_nonempty :: "world \<Rightarrow> tkvdb_tr \<Rightarrow> bool outcome" where
  "db_nonempty w tr =
     (case db tr of
        None \<Rightarrow> Done False
      | Some dp \<Rightarrow>
          (case dbs w dp of
             None \<Rightarrow> Crash
           | Some d \<Rightarrow> Done (filesize (info d) > 0)))"

text \<open>\<open>if (tr->tr_buf_dynalloc) free(p);\<close> on the out-of-memory paths.\<close>

definition free_if_dynalloc :: "world \<Rightarrow> tkvdb_tr \<Rightarrow> nat \<Rightarrow> world outcome" where
  "free_if_dynalloc w tr p = (if tr_buf_dynalloc tr then free w p else Done w)"

text \<open>
  The two labels of the source: \<open>next_byte\<close> is the function below, with the
  current node, the offset \<open>sp\<close> of the current symbol (\<open>sym\<close>) in the key and the
  prefix index \<open>pi\<close>; a jump to \<open>next_node\<close> is \<open>TKVDB_SKIP_RNODES\<close> followed by
  \<open>next_byte\<close> with \<open>pi = 0\<close>.
\<close>

partial_function (option) tkvdb_put_next_byte ::
  "world \<Rightarrow> tkvdb_tr \<Rightarrow> tkvdb_datum \<Rightarrow> tkvdb_datum \<Rightarrow> nat \<Rightarrow> nat \<Rightarrow> nat
     \<Rightarrow> (TKVDB_RES \<times> world \<times> tkvdb_tr) outcome option" where
  "tkvdb_put_next_byte w tr key val node sp pi =
     (case heap w node of
        None \<Rightarrow> Some Crash
      | Some n \<Rightarrow>
     if sp \<ge> len key then
       (if pi = prefix_size n then
          (if val_size n = len val \<and> len val \<noteq> 0 then
             (case memread (data val) 0 (len val) of
                None \<Rightarrow> Some Crash
              | Some vb \<Rightarrow>
                  (case memwrite (prefix_val_meta n) (prefix_size n) vb of
                     None \<Rightarrow> Some Crash
                   | Some pvm \<Rightarrow>
                       Some (Done (TKVDB_OK, set_node w node (n\<lparr>prefix_val_meta := pvm\<rparr>), tr))))
           else
             (case tkvdb_node_new w tr TKVDB_NODE_VAL pi (prefix_val_meta n)
                     (len val) (data val) of
                Crash \<Rightarrow> Some Crash
              | Done (None, w1, tr1) \<Rightarrow> Some (Done (TKVDB_ENOMEM, w1, tr1))
              | Done (Some newroot, w1, tr1) \<Rightarrow>
                  (case tkvdb_clone_subnodes w1 newroot node of
                     Crash \<Rightarrow> Some Crash
                   | Done w2 \<Rightarrow>
                       (case TKVDB_REPLACE_NODE w2 node newroot of
                          Crash \<Rightarrow> Some Crash
                        | Done w3 \<Rightarrow> Some (Done (TKVDB_OK, w3, tr1))))))
        else
          (case tkvdb_node_new w tr TKVDB_NODE_VAL pi (prefix_val_meta n)
                  (len val) (data val) of
             Crash \<Rightarrow> Some Crash
           | Done (None, w1, tr1) \<Rightarrow> Some (Done (TKVDB_ENOMEM, w1, tr1))
           | Done (Some newroot, w1, tr1) \<Rightarrow>
               (case tkvdb_node_new w1 tr1 (ntype n) (prefix_size n - pi - 1)
                       (drop (pi + 1) (prefix_val_meta n))
                       (val_size n) (drop (prefix_size n) (prefix_val_meta n)) of
                  Crash \<Rightarrow> Some Crash
                | Done (None, w2, tr2) \<Rightarrow>
                    (case free_if_dynalloc w2 tr2 newroot of
                       Crash \<Rightarrow> Some Crash
                     | Done w3 \<Rightarrow> Some (Done (TKVDB_ENOMEM, w3, tr2)))
                | Done (Some subnode_rest, w2, tr2) \<Rightarrow>
                    (case tkvdb_clone_subnodes w2 subnode_rest node of
                       Crash \<Rightarrow> Some Crash
                     | Done w3 \<Rightarrow>
                         (case byte_at (prefix_val_meta n) pi of
                            None \<Rightarrow> Some Crash
                          | Some c \<Rightarrow>
                              (case set_next w3 newroot (unat c) (Some subnode_rest) of
                                 Crash \<Rightarrow> Some Crash
                               | Done w4 \<Rightarrow>
                                   (case TKVDB_REPLACE_NODE w4 node newroot of
                                      Crash \<Rightarrow> Some Crash
                                    | Done w5 \<Rightarrow> Some (Done (TKVDB_OK, w5, tr2)))))))))
     else
       (case byte_at (data key) sp of
          None \<Rightarrow> Some Crash
        | Some s \<Rightarrow>
     if pi \<ge> prefix_size n then
       (case nxt n (unat s) of
          Some nx \<Rightarrow>
            (case TKVDB_SKIP_RNODES w nx of
               None \<Rightarrow> None
             | Some Crash \<Rightarrow> Some Crash
             | Some (Done node1) \<Rightarrow> tkvdb_put_next_byte w tr key val node1 (sp + 1) 0)
        | None \<Rightarrow>
            if db tr \<noteq> None \<and> fnext n (unat s) \<noteq> 0 then
              (case tkvdb_node_read w tr (fnext n (unat s)) of
                 Crash \<Rightarrow> Some Crash
               | Done (r, tmp, w1, tr1) \<Rightarrow>
                   if r \<noteq> TKVDB_OK then Some (Done (r, w1, tr1))
                   else
                     (case tmp of
                        None \<Rightarrow> Some Crash
                      | Some t \<Rightarrow>
                          (case set_next w1 node (unat s) (Some t) of
                             Crash \<Rightarrow> Some Crash
                           | Done w2 \<Rightarrow>
                               (case TKVDB_SKIP_RNODES w2 t of
                                  None \<Rightarrow> None
                                | Some Crash \<Rightarrow> Some Crash
                                | Some (Done node1) \<Rightarrow>
                                    tkvdb_put_next_byte w2 tr1 key val node1 (sp + 1) 0))))
            else
              (case tkvdb_node_new w tr TKVDB_NODE_VAL (len key - sp - 1)
                      (drop (sp + 1) (data key)) (len val) (data val) of
                 Crash \<Rightarrow> Some Crash
               | Done (None, w1, tr1) \<Rightarrow> Some (Done (TKVDB_ENOMEM, w1, tr1))
               | Done (Some tmp, w1, tr1) \<Rightarrow>
                   (case set_next w1 node (unat s) (Some tmp) of
                      Crash \<Rightarrow> Some Crash
                    | Done w2 \<Rightarrow> Some (Done (TKVDB_OK, w2, tr1)))))
     else
       (case byte_at (prefix_val_meta n) pi of
          None \<Rightarrow> Some Crash
        | Some c \<Rightarrow>
     if c \<noteq> s then
       (case tkvdb_node_new w tr 0 pi (prefix_val_meta n) 0 [] of
          Crash \<Rightarrow> Some Crash
        | Done (None, w1, tr1) \<Rightarrow> Some (Done (TKVDB_ENOMEM, w1, tr1))
        | Done (Some newroot, w1, tr1) \<Rightarrow>
            (case tkvdb_node_new w1 tr1 (ntype n) (prefix_size n - pi - 1)
                    (drop (pi + 1) (prefix_val_meta n))
                    (val_size n) (drop (prefix_size n) (prefix_val_meta n)) of
               Crash \<Rightarrow> Some Crash
             | Done (None, w2, tr2) \<Rightarrow>
                 (case free_if_dynalloc w2 tr2 newroot of
                    Crash \<Rightarrow> Some Crash
                  | Done w3 \<Rightarrow> Some (Done (TKVDB_ENOMEM, w3, tr2)))
             | Done (Some subnode_rest, w2, tr2) \<Rightarrow>
                 (case tkvdb_clone_subnodes w2 subnode_rest node of
                    Crash \<Rightarrow> Some Crash
                  | Done w3 \<Rightarrow>
                      (case tkvdb_node_new w3 tr2 TKVDB_NODE_VAL (len key - sp - 1)
                              (drop (sp + 1) (data key)) (len val) (data val) of
                         Crash \<Rightarrow> Some Crash
                       | Done (None, w4, tr3) \<Rightarrow>
                           (case free_if_dynalloc w4 tr3 subnode_rest of
                              Crash \<Rightarrow> Some Crash
                            | Done w5 \<Rightarrow>
                                (case free_if_dynalloc w5 tr3 newroot of
                                   Crash \<Rightarrow> Some Crash
                                 | Done w6 \<Rightarrow> Some (Done (TKVDB_ENOMEM, w6, tr3))))
                       | Done (Some subnode_key, w4, tr3) \<Rightarrow>
                           (case set_next w4 newroot (unat c) (Some subnode_rest) of
                              Crash \<Rightarrow> Some Crash
                            | Done w5 \<Rightarrow>
                                (case set_next w5 newroot (unat s) (Some subnode_key) of
                                   Crash \<Rightarrow> Some Crash
                                 | Done w6 \<Rightarrow>
                                     (case TKVDB_REPLACE_NODE w6 node newroot of
                                        Crash \<Rightarrow> Some Crash
                                      | Done w7 \<Rightarrow> Some (Done (TKVDB_OK, w7, tr3)))))))))
     else tkvdb_put_next_byte w tr key val node (sp + 1) (pi + 1))))"

definition tkvdb_put_next_node ::
  "world \<Rightarrow> tkvdb_tr \<Rightarrow> tkvdb_datum \<Rightarrow> tkvdb_datum \<Rightarrow> nat \<Rightarrow> nat
     \<Rightarrow> (TKVDB_RES \<times> world \<times> tkvdb_tr) outcome option" where
  "tkvdb_put_next_node w tr key val node sp =
     (case TKVDB_SKIP_RNODES w node of
        None \<Rightarrow> None
      | Some Crash \<Rightarrow> Some Crash
      | Some (Done node1) \<Rightarrow> tkvdb_put_next_byte w tr key val node1 sp 0)"

definition tkvdb_put ::
  "world \<Rightarrow> tkvdb_tr \<Rightarrow> tkvdb_datum \<Rightarrow> tkvdb_datum
     \<Rightarrow> (TKVDB_RES \<times> world \<times> tkvdb_tr) outcome option" where
  "tkvdb_put w tr key val =
     (if \<not> started tr then Some (Done (TKVDB_NOT_STARTED, w, tr))
      else
        (case root tr of
           Some node \<Rightarrow> tkvdb_put_next_node w tr key val node 0
         | None \<Rightarrow>
             (case db_nonempty w tr of
                Crash \<Rightarrow> Some Crash
              | Done True \<Rightarrow>
                  (case db tr of
                     None \<Rightarrow> Some Crash
                   | Some dp \<Rightarrow>
                       (case dbs w dp of
                          None \<Rightarrow> Some Crash
                        | Some d \<Rightarrow>
                            (case tkvdb_node_read w tr (root_off (footer (info d))) of
                               Crash \<Rightarrow> Some Crash
                             | Done (r, p, w1, tr1) \<Rightarrow>
                                 if r \<noteq> TKVDB_OK then Some (Done (r, w1, tr1\<lparr>root := p\<rparr>))
                                 else
                                   (case p of
                                      None \<Rightarrow> Some Crash
                                    | Some node \<Rightarrow>
                                        tkvdb_put_next_node w1 (tr1\<lparr>root := p\<rparr>) key val node 0))))
              | Done False \<Rightarrow>
                  (case tkvdb_node_new w tr TKVDB_NODE_VAL (len key) (data key)
                          (len val) (data val) of
                     Crash \<Rightarrow> Some Crash
                   | Done (p, w1, tr1) \<Rightarrow>
                       (case p of
                          None \<Rightarrow> Some (Done (TKVDB_ENOMEM, w1, tr1\<lparr>root := None\<rparr>))
                        | Some node \<Rightarrow> Some (Done (TKVDB_OK, w1, tr1\<lparr>root := p\<rparr>)))))))"


subsection \<open>\<open>tkvdb_get\<close>\<close>

text \<open>On success the datum points into the node: its memory starts at the
  value bytes of \<open>prefix_val_meta\<close>.\<close>

partial_function (option) tkvdb_get_next_byte ::
  "world \<Rightarrow> tkvdb_tr \<Rightarrow> tkvdb_datum \<Rightarrow> tkvdb_datum \<Rightarrow> nat \<Rightarrow> nat \<Rightarrow> nat
     \<Rightarrow> (TKVDB_RES \<times> tkvdb_datum \<times> world \<times> tkvdb_tr) outcome option" where
  "tkvdb_get_next_byte w tr key val node sp pi =
     (case heap w node of
        None \<Rightarrow> Some Crash
      | Some n \<Rightarrow>
     if sp \<ge> len key then
       (if pi = prefix_size n \<and> has_flag (ntype n) TKVDB_NODE_VAL
        then Some (Done (TKVDB_OK,
                         \<lparr>data = drop (prefix_size n) (prefix_val_meta n), len = val_size n\<rparr>,
                         w, tr))
        else Some (Done (TKVDB_NOT_FOUND, val, w, tr)))
     else
       (case byte_at (data key) sp of
          None \<Rightarrow> Some Crash
        | Some s \<Rightarrow>
     if pi \<ge> prefix_size n then
       (case nxt n (unat s) of
          Some nx \<Rightarrow>
            (case TKVDB_SKIP_RNODES w nx of
               None \<Rightarrow> None
             | Some Crash \<Rightarrow> Some Crash
             | Some (Done node1) \<Rightarrow> tkvdb_get_next_byte w tr key val node1 (sp + 1) 0)
        | None \<Rightarrow>
            if db tr \<noteq> None \<and> fnext n (unat s) \<noteq> 0 then
              (case tkvdb_node_read w tr (fnext n (unat s)) of
                 Crash \<Rightarrow> Some Crash
               | Done (r, tmp, w1, tr1) \<Rightarrow>
                   if r \<noteq> TKVDB_OK then Some (Done (r, val, w1, tr1))
                   else
                     (case tmp of
                        None \<Rightarrow> Some Crash
                      | Some t \<Rightarrow>
                          (case set_next w1 node (unat s) (Some t) of
                             Crash \<Rightarrow> Some Crash
                           | Done w2 \<Rightarrow>
                               (case TKVDB_SKIP_RNODES w2 t of
                                  None \<Rightarrow> None
                                | Some Crash \<Rightarrow> Some Crash
                                | Some (Done node1) \<Rightarrow>
                                    tkvdb_get_next_byte w2 tr1 key val node1 (sp + 1) 0))))
            else Some (Done (TKVDB_NOT_FOUND, val, w, tr)))
     else
       (case byte_at (prefix_val_meta n) pi of
          None \<Rightarrow> Some Crash
        | Some c \<Rightarrow>
            if c \<noteq> s then Some (Done (TKVDB_NOT_FOUND, val, w, tr))
            else tkvdb_get_next_byte w tr key val node (sp + 1) (pi + 1))))"

text \<open>After the root check the source executes
  \<open>off = tr->db->info.footer.root_off\<close> whatever \<open>tr->db\<close> is.\<close>

definition tkvdb_get_walk ::
  "world \<Rightarrow> tkvdb_tr \<Rightarrow> tkvdb_datum \<Rightarrow> tkvdb_datum \<Rightarrow> nat
     \<Rightarrow> (TKVDB_RES \<times> tkvdb_datum \<times> world \<times> tkvdb_tr) outcome option" where
  "tkvdb_get_walk w tr key val node =
     (case db tr of
        None \<Rightarrow> Some Crash
      | Some dp \<Rightarrow>
          (case dbs w dp of
             None \<Rightarrow> Some Crash
           | Some d \<Rightarrow>
               (case TKVDB_SKIP_RNODES w node of
                  None \<Rightarrow> None
                | Some Crash \<Rightarrow> Some Crash
                | Some (Done node1) \<Rightarrow> tkvdb_get_next_byte w tr key val node1 0 0)))"

definition tkvdb_get ::
  "world \<Rightarrow> tkvdb_tr \<Rightarrow> tkvdb_datum \<Rightarrow> tkvdb_datum
     \<Rightarrow> (TKVDB_RES \<times> tkvdb_datum \<times> world \<times> tkvdb_tr) outcome option" where
  "tkvdb_get w tr key val =
     (if \<not> started tr then Some (Done (TKVDB_NOT_STARTED, val, w, tr))
      else
        (case root tr of
           Some node \<Rightarrow> tkvdb_get_walk w tr key val node
         | None \<Rightarrow>
             (case db_nonempty w tr of
                Crash \<Rightarrow> Some Crash
              | Done False \<Rightarrow> Some (Done (TKVDB_EMPTY, val, w, tr))
              | Done True \<Rightarrow>
                  (case db tr of
                     None \<Rightarrow> Some Crash
                   | Some dp \<Rightarrow>
                       (case dbs w dp of
                          None \<Rightarrow> Some Crash
                        | Some d \<Rightarrow>
                            (case tkvdb_node_read w tr (root_off (footer (info d))) of
                               Crash \<Rightarrow> Some Crash
                             | Done (r, p, w1, tr1) \<Rightarrow>
                                 if r \<noteq> TKVDB_OK then Some (Done (r, val, w1, tr1\<lparr>root := p\<rparr>))
                                 else
                                   (case p of
                                      None \<Rightarrow> Some Crash
                                    | Some node \<Rightarrow>
                                        tkvdb_get_walk w1 (tr1\<lparr>root := p\<rparr>) key val node)))))))"

subsection \<open>\<open>tkvdb_del\<close>\<close>

text \<open>\<open>for (i = 0; i < 256; i++) if (node->next[i] || node->fnext[i])\<close>: the
  first such index from \<open>i\<close> on, or 256.\<close>

function scan_subnode :: "tkvdb_memnode \<Rightarrow> nat \<Rightarrow> nat" where
  "scan_subnode n i =
     (if i < 256 then (if nxt n i \<noteq> None \<or> fnext n i \<noteq> 0 then i else scan_subnode n (i + 1))
      else i)"
  by pat_completeness auto
termination
  by (relation "measure (\<lambda>(n, i). 256 - i)") auto

text \<open>The statements of the source behind the three-way \<open>if\<close> (the merge of a
  parent with its only child) cannot be reached: every branch returns.\<close>

text \<open>\<open>prev->next[prev_off] = NULL; prev->fnext[prev_off] = 0;\<close>\<close>

definition detach_subnode :: "world \<Rightarrow> nat \<Rightarrow> nat \<Rightarrow> world outcome" where
  "detach_subnode w prev prev_off =
     (case heap w prev of
        None \<Rightarrow> Crash
      | Some pn \<Rightarrow>
          Done (set_node w prev
                  (pn\<lparr>nxt := (nxt pn)(prev_off := None), fnext := (fnext pn)(prev_off := 0)\<rparr>)))"

definition tkvdb_do_del ::
  "world \<Rightarrow> tkvdb_tr \<Rightarrow> nat \<Rightarrow> nat option \<Rightarrow> nat \<Rightarrow> bool
     \<Rightarrow> (TKVDB_RES \<times> world \<times> tkvdb_tr) outcome option" where
  "tkvdb_do_del w tr node prev prev_off del_pfx =
     (case prev of
        None \<Rightarrow>
          (case tkvdb_node_free w node of
             None \<Rightarrow> None
           | Some Crash \<Rightarrow> Some Crash
           | Some (Done w1) \<Rightarrow>
               (case tkvdb_node_new w1 tr 0 0 [] 0 [] of
                  Crash \<Rightarrow> Some Crash
                | Done (None, w2, tr1) \<Rightarrow> Some (Done (TKVDB_ENOMEM, w2, tr1))
                | Done (Some node1, w2, tr1) \<Rightarrow>
                    Some (Done (TKVDB_OK, w2, tr1\<lparr>root := Some node1\<rparr>))))
      | Some pr \<Rightarrow>
          if del_pfx then
            (case detach_subnode w pr prev_off of
               Crash \<Rightarrow> Some Crash
             | Done w1 \<Rightarrow>
                 (case tkvdb_node_free w1 node of
                    None \<Rightarrow> None
                  | Some Crash \<Rightarrow> Some Crash
                  | Some (Done w2) \<Rightarrow> Some (Done (TKVDB_OK, w2, tr))))
          else
            (case heap w node of
               None \<Rightarrow> Some Crash
             | Some n \<Rightarrow>
                 if has_flag (ntype n) TKVDB_NODE_VAL then
                   (if scan_subnode n 0 \<ge> 256 then
                      (case detach_subnode w pr prev_off of
                         Crash \<Rightarrow> Some Crash
                       | Done w1 \<Rightarrow>
                           (case tkvdb_node_free w1 node of
                              None \<Rightarrow> None
                            | Some Crash \<Rightarrow> Some Crash
                            | Some (Done w2) \<Rightarrow> Some (Done (TKVDB_OK, w2, tr))))
                    else
                      Some (Done (TKVDB_OK,
                                  set_node w node (n\<lparr>ntype := ntype n AND NOT TKVDB_NODE_VAL\<rparr>),
                                  tr)))
                 else Some (Done (TKVDB_NOT_FOUND, w, tr))))"

text \<open>At the end of the key the source tests only for the exact match and
  otherwise falls through to the comparisons below, which read \<open>*sym\<close>.\<close>

partial_function (option) tkvdb_del_next_byte ::
  "world \<Rightarrow> tkvdb_tr \<Rightarrow> tkvdb_datum \<Rightarrow> bool \<Rightarrow> nat \<Rightarrow> nat option \<Rightarrow> nat \<Rightarrow> nat \<Rightarrow> nat
     \<Rightarrow> (TKVDB_RES \<times> world \<times> tkvdb_tr) outcome option" where
  "tkvdb_del_next_byte w tr key del_pfx node prev prev_off sp pi =
     (case heap w node of
        None \<Rightarrow> Some Crash
      | Some n \<Rightarrow>
     if sp \<ge> len key \<and> pi = prefix_size n then tkvdb_do_del w tr node prev prev_off del_pfx
     else
       (case byte_at (data key) sp of
          None \<Rightarrow> Some Crash
        | Some s \<Rightarrow>
     if pi \<ge> prefix_size n then
       (case nxt n (unat s) of
          Some nx \<Rightarrow>
            (case TKVDB_SKIP_RNODES w nx of
               None \<Rightarrow> None
             | Some Crash \<Rightarrow> Some Crash
             | Some (Done node1) \<Rightarrow>
                 tkvdb_del_next_byte w tr key del_pfx node1 (Some node) (unat s) (sp + 1) 0)
        | None \<Rightarrow>
            if db tr \<noteq> None \<and> fnext n (unat s) \<noteq> 0 then
              (case tkvdb_node_read w tr (fnext n (unat s)) of
                 Crash \<Rightarrow> Some Crash
               | Done (r, tmp, w1, tr1) \<Rightarrow>
                   if r \<noteq> TKVDB_OK then Some (Done (r, w1, tr1))
                   else
                     (case tmp of
                        None \<Rightarrow> Some Crash
                      | Some t \<Rightarrow>
                          (case set_next w1 node (unat s) (Some t) of
                             Crash \<Rightarrow> Some Crash
                           | Done w2 \<Rightarrow>
                               (case TKVDB_SKIP_RNODES w2 t of
                                  None \<Rightarrow> None
                                | Some Crash \<Rightarrow> Some Crash
                                | Some (Done node1) \<Rightarrow>
                                    tkvdb_del_next_byte w2 tr1 key del_pfx node1 (Some node)
                                      (unat s) (sp + 1) 0))))
            else Some (Done (TKVDB_NOT_FOUND, w, tr)))
     else
       (case byte_at (prefix_val_meta n) pi of
          None \<Rightarrow> Some Crash
        | Some c \<Rightarrow>
            if c \<noteq> s then Some (Done (TKVDB_NOT_FOUND, w, tr))
            else tkvdb_del_next_byte w tr key del_pfx node prev prev_off (sp + 1) (pi + 1))))"

definition tkvdb_del_next_node ::
  "world \<Rightarrow> tkvdb_tr \<Rightarrow> tkvdb_datum \<Rightarrow> bool \<Rightarrow> nat
     \<Rightarrow> (TKVDB_RES \<times> world \<times> tkvdb_tr) outcome option" where
  "tkvdb_del_next_node w tr key del_pfx node =
     (case TKVDB_SKIP_RNODES w node of
        None \<Rightarrow> None
      | Some Crash \<Rightarrow> Some Crash
      | Some (Done node1) \<Rightarrow> tkvdb_del_next_byte w tr key del_pfx node1 None 0 0 0)"

definition tkvdb_del ::
  "world \<Rightarrow> tkvdb_tr \<Rightarrow> tkvdb_datum \<Rightarrow> bool
     \<Rightarrow> (TKVDB_RES \<times> world \<times> tkvdb_tr) outcome option" where
  "tkvdb_del w tr key del_pfx =
     (if \<not> started tr then Some (Done (TKVDB_NOT_STARTED, w, tr))
      else
        (case root tr of
           Some node \<Rightarrow> tkvdb_del_next_node w tr key del_pfx node
         | None \<Rightarrow>
             (case db_nonempty w tr of
                Crash \<Rightarrow> Some Crash
              | Done False \<Rightarrow> Some (Done (TKVDB_EMPTY, w, tr))
              | Done True \<Rightarrow>
                  (case db tr of
                     None \<Rightarrow> Some Crash
                   | Some dp \<Rightarrow>
                       (case dbs w dp of
                          None \<Rightarrow> Some Crash
                        | Some d \<Rightarrow>
                            (case tkvdb_node_read w tr (root_off (footer (info d))) of
                               Crash \<Rightarrow> Some Crash
                             | Done (r, p, w1, tr1) \<Rightarrow>
                                 if r \<noteq> TKVDB_OK then Some (Done (r, w1, tr1\<lparr>root := p\<rparr>))
                                 else
                                   (case p of
                                      None \<Rightarrow> Some Crash
                                    | Some node \<Rightarrow>
                                        tkvdb_del_next_node w1 (tr1\<lparr>root := p\<rparr>) key del_pfx node)))))))"


subsection \<open>Cursors\<close>

text \<open>
  The functions on a cursor work on the store, the transaction the cursor
  belongs to (\<open>c->tr\<close>) and the cursor.  \<open>TKVDB_EXEC\<close> is the macro of the
  source: the enclosing function returns the result of the call unless it is
  \<open>TKVDB_OK\<close>.
\<close>

type_synonym cstate = "world \<times> tkvdb_tr \<times> tkvdb_cursor"

definition TKVDB_EXEC ::
  "(TKVDB_RES \<times> 's) outcome option \<Rightarrow> ('s \<Rightarrow> (TKVDB_RES \<times> 's) outcome option)
     \<Rightarrow> (TKVDB_RES \<times> 's) outcome option" where
  "TKVDB_EXEC m k =
     (case m of
        None \<Rightarrow> None
      | Some Crash \<Rightarrow> Some Crash
      | Some (Done (r, s)) \<Rightarrow> if r \<noteq> TKVDB_OK then Some (Done (r, s)) else k s)"

lemma TKVDB_EXEC_mono [partial_function_mono]:
  assumes mf: "mono_option B" and mg: "\<And>y. mono_option (\<lambda>f. C y f)"
  shows "mono_option (\<lambda>f. TKVDB_EXEC (B f) (\<lambda>y. C y f))"
proof (rule monotoneI)
  fix f g :: "'a \<Rightarrow> 'b option"
  assume fg: "option.le_fun f g"
  from mf have 1: "option_ord (B f) (B g)" by (rule monotoneD) (rule fg)
  from mg have 2: "\<And>y. option_ord (C y f) (C y g)" by (rule monotoneD) (rule fg)
  show "option_ord (TKVDB_EXEC (B f) (\<lambda>y. C y f)) (TKVDB_EXEC (B g) (\<lambda>y. C y g))"
  proof (cases "B f")
    case None
    then show ?thesis by (simp add: TKVDB_EXEC_def flat_ord_def)
  next
    case (Some a)
    with 1 have eq: "B g = Some a" by (auto simp: flat_ord_def)
    show ?thesis
    proof (cases a)
      case Crash
      with Some eq show ?thesis by (simp add: TKVDB_EXEC_def flat_ord_def)
    next
      case (Done p)
      obtain r s where p: "p = (r, s)" by (cases p)
      from 2 [of s] Some eq Done p show ?thesis
        by (simp add: TKVDB_EXEC_def flat_ord_def)
    qed
  qed
qed

definition tkvdb_cursor_create :: tkvdb_cursor where
  "tkvdb_cursor_create =
     \<lparr>stack_size = 0, stack = (\<lambda>_. \<lparr>vh_node = 0, vh_off = 0\<rparr>),
      c_prefix_size = 0, c_prefix = None, c_val_size = 0, c_val = None\<rparr>"

text \<open>The key buffer of a cursor is a block of its own; \<open>realloc\<close> keeps the
  bytes that fit and fails when the memory is exhausted.\<close>

definition buf_size :: "byte list option \<Rightarrow> nat" where
  "buf_size b = (case b of None \<Rightarrow> 0 | Some bs \<Rightarrow> length bs)"

definition buf_free :: "world \<Rightarrow> byte list option \<Rightarrow> world" where
  "buf_free w b = w\<lparr>mem_avail := mem_avail w + buf_size b\<rparr>"

definition buf_realloc :: "world \<Rightarrow> byte list option \<Rightarrow> nat \<Rightarrow> byte list option \<times> world" where
  "buf_realloc w b n =
     (if n > mem_avail w + buf_size b then (None, w)
      else
        (Some (case b of None \<Rightarrow> replicate n 0
               | Some bs \<Rightarrow> take n bs @ replicate (n - length bs) 0),
         w\<lparr>mem_avail := mem_avail w + buf_size b - n\<rparr>))"

text \<open>\<open>n\<close> is an \<open>int\<close>; \<open>c->prefix_size + n\<close> is computed in \<open>size_t\<close>.\<close>

definition tkvdb_cursor_expand_prefix :: "cstate \<Rightarrow> int \<Rightarrow> (TKVDB_RES \<times> cstate) outcome" where
  "tkvdb_cursor_expand_prefix cs n =
     (case cs of
        (w, tr, c) \<Rightarrow>
          if n = 0 then
            (if c_prefix c \<noteq> None
             then Done (TKVDB_OK, buf_free w (c_prefix c), tr, c\<lparr>c_prefix := None\<rparr>)
             else Done (TKVDB_OK, w, tr, c))
          else
            let new_size = nat ((int (c_prefix_size c) + n) mod 2 ^ 64)
            in if new_size = 0
               then Done (TKVDB_OK, buf_free w (c_prefix c), tr, c\<lparr>c_prefix := None\<rparr>)
               else
                 (case buf_realloc w (c_prefix c) new_size of
                    (None, w1) \<Rightarrow>
                      Done (TKVDB_ENOMEM, buf_free w1 (c_prefix c), tr, c\<lparr>c_prefix := None\<rparr>)
                  | (Some b, w1) \<Rightarrow> Done (TKVDB_OK, w1, tr, c\<lparr>c_prefix := Some b\<rparr>)))"

text \<open>The stack of a cursor has \<open>TKVDB_STACK_MAX_DEPTH\<close> frames and the source
  does not test the depth: a push on a full stack writes behind the array.\<close>

definition tkvdb_cursor_push :: "cstate \<Rightarrow> nat \<Rightarrow> int \<Rightarrow> (TKVDB_RES \<times> cstate) outcome" where
  "tkvdb_cursor_push cs node off =
     (case cs of
        (w, tr, c) \<Rightarrow>
          if stack_size c \<ge> TKVDB_STACK_MAX_DEPTH then Crash
          else
            (case heap w node of
               None \<Rightarrow> Crash
             | Some n \<Rightarrow>
                 Done (TKVDB_OK, w, tr,
                       c\<lparr>stack := (stack c)(stack_size c := \<lparr>vh_node = node, vh_off = off\<rparr>),
                         stack_size := stack_size c + 1,
                         c_val_size := val_size n,
                         c_val := Some (node, prefix_size n)\<rparr>)))"

definition tkvdb_cursor_pop :: "cstate \<Rightarrow> (TKVDB_RES \<times> cstate) outcome" where
  "tkvdb_cursor_pop cs =
     (case cs of
        (w, tr, c) \<Rightarrow>
          if stack_size c \<le> 1 then Done (TKVDB_NOT_FOUND, cs)
          else
            let node = vh_node (stack c (stack_size c - 1))
            in (case heap w node of
                  None \<Rightarrow> Crash
                | Some n \<Rightarrow>
                    (case tkvdb_cursor_expand_prefix cs (- int (prefix_size n + 1)) of
                       Crash \<Rightarrow> Crash
                     | Done (r, w1, tr1, c1) \<Rightarrow>
                         if r \<noteq> TKVDB_OK then Done (r, w1, tr1, c1)
                         else
                           Done (TKVDB_OK, w1, tr1,
                                 c1\<lparr>c_prefix_size :=
                                       nat ((int (c_prefix_size c1) - int (prefix_size n + 1))
                                            mod 2 ^ 64),
                                    stack_size := stack_size c1 - 1,
                                    c_val_size := val_size n,
                                    c_val := Some (node, prefix_size n)\<rparr>))))"

text \<open>\<open>memcpy(c->prefix + c->prefix_size, str, n); c->prefix_size += n;\<close>\<close>

definition prefix_store :: "cstate \<Rightarrow> byte list \<Rightarrow> (TKVDB_RES \<times> cstate) outcome" where
  "prefix_store cs bs =
     (case cs of
        (w, tr, c) \<Rightarrow>
          (case c_prefix c of
             None \<Rightarrow> Crash
           | Some b \<Rightarrow>
               (case memwrite b (c_prefix_size c) bs of
                  None \<Rightarrow> Crash
                | Some b1 \<Rightarrow>
                    Done (TKVDB_OK, w, tr,
                          c\<lparr>c_prefix := Some b1,
                            c_prefix_size := c_prefix_size c + length bs\<rparr>))))"

definition tkvdb_cursor_append :: "cstate \<Rightarrow> byte list \<Rightarrow> nat \<Rightarrow> (TKVDB_RES \<times> cstate) outcome" where
  "tkvdb_cursor_append cs str n =
     (if n > 0 then
        (case tkvdb_cursor_expand_prefix cs (int n) of
           Crash \<Rightarrow> Crash
         | Done (r, cs1) \<Rightarrow>
             if r \<noteq> TKVDB_OK then Done (r, cs1)
             else (case memread str 0 n of None \<Rightarrow> Crash | Some bs \<Rightarrow> prefix_store cs1 bs))
      else Done (TKVDB_OK, cs))"

definition tkvdb_cursor_append_sym :: "cstate \<Rightarrow> int \<Rightarrow> (TKVDB_RES \<times> cstate) outcome" where
  "tkvdb_cursor_append_sym cs s =
     (case tkvdb_cursor_expand_prefix cs 1 of
        Crash \<Rightarrow> Crash
      | Done (r, cs1) \<Rightarrow>
          if r \<noteq> TKVDB_OK then Done (r, cs1) else prefix_store cs1 [of_int s])"

definition tkvdb_cursor_reset :: "cstate \<Rightarrow> cstate" where
  "tkvdb_cursor_reset cs =
     (case cs of
        (w, tr, c) \<Rightarrow>
          let freed = (c_prefix_size c \<noteq> 0 \<and> c_prefix c \<noteq> None)
          in ((if freed then buf_free w (c_prefix c) else w), tr,
              c\<lparr>stack_size := 0,
                c_prefix := (if freed then None else c_prefix c),
                c_prefix_size := 0, c_val_size := 0, c_val := None\<rparr>))"

text \<open>What the accessors of a cursor give: the key is the first
  \<open>prefix_size\<close> bytes of the key buffer, the value the \<open>val_size\<close> bytes at
  \<open>val\<close>.\<close>

definition tkvdb_cursor_key :: "tkvdb_cursor \<Rightarrow> byte list" where
  "tkvdb_cursor_key c = take (c_prefix_size c) (case c_prefix c of None \<Rightarrow> [] | Some b \<Rightarrow> b)"

definition tkvdb_cursor_keysize :: "tkvdb_cursor \<Rightarrow> nat" where
  "tkvdb_cursor_keysize c = c_prefix_size c"

definition tkvdb_cursor_val :: "world \<Rightarrow> tkvdb_cursor \<Rightarrow> byte list" where
  "tkvdb_cursor_val w c =
     (case c_val c of
        None \<Rightarrow> []
      | Some (node, off) \<Rightarrow>
          (case heap w node of
             None \<Rightarrow> []
           | Some n \<Rightarrow> take (c_val_size c) (drop off (prefix_val_meta n))))"

definition tkvdb_cursor_valsize :: "tkvdb_cursor \<Rightarrow> nat" where
  "tkvdb_cursor_valsize c = c_val_size c"

text \<open>\<open>TKVDB_SUBNODE_NEXT\<close>: the subnode at \<open>off\<close>, loaded from the file when
  it is there only; \<open>TKVDB_SUBNODE_SEARCH\<close>: the first subnode from \<open>off\<close> on,
  upwards or downwards.  Both give the result code with which the enclosing
  function returns when it is not \<open>TKVDB_OK\<close>.\<close>

definition TKVDB_SUBNODE_NEXT ::
  "world \<Rightarrow> tkvdb_tr \<Rightarrow> nat \<Rightarrow> int \<Rightarrow> (TKVDB_RES \<times> nat option \<times> world \<times> tkvdb_tr) outcome" where
  "TKVDB_SUBNODE_NEXT w tr node off =
     (if off < 0 \<or> off > 255 then Crash
      else
        (case heap w node of
           None \<Rightarrow> Crash
         | Some n \<Rightarrow>
             (case nxt n (nat off) of
                Some nx \<Rightarrow> Done (TKVDB_OK, Some nx, w, tr)
              | None \<Rightarrow>
                  if db tr \<noteq> None \<and> fnext n (nat off) \<noteq> 0 then
                    (case tkvdb_node_read w tr (fnext n (nat off)) of
                       Crash \<Rightarrow> Crash
                     | Done (r, tmp, w1, tr1) \<Rightarrow>
                         if r \<noteq> TKVDB_OK then Done (r, None, w1, tr1)
                         else
                           (case set_next w1 node (nat off) tmp of
                              Crash \<Rightarrow> Crash
                            | Done w2 \<Rightarrow> Done (TKVDB_OK, tmp, w2, tr1)))
                  else Done (TKVDB_OK, None, w, tr))))"

function TKVDB_SUBNODE_SEARCH ::
  "world \<Rightarrow> tkvdb_tr \<Rightarrow> nat \<Rightarrow> int \<Rightarrow> bool
     \<Rightarrow> (TKVDB_RES \<times> nat option \<times> int \<times> world \<times> tkvdb_tr) outcome" where
  "TKVDB_SUBNODE_SEARCH w tr node off incr =
     (if off = (if incr then 256 else - 1) then Done (TKVDB_OK, None, off, w, tr)
      else if off < 0 \<or> off > 255 then Crash
      else
        (case TKVDB_SUBNODE_NEXT w tr node off of
           Crash \<Rightarrow> Crash
         | Done (r, nx, w1, tr1) \<Rightarrow>
             if r \<noteq> TKVDB_OK then Done (r, None, off, w1, tr1)
             else if nx \<noteq> None then Done (TKVDB_OK, nx, off, w1, tr1)
             else TKVDB_SUBNODE_SEARCH w tr node (off + (if incr then 1 else - 1)) incr))"
  by pat_completeness auto
termination
  by (relation "measure (\<lambda>(w, tr, node, off, incr). if incr then nat (256 - off) else nat (off + 1))")
     auto


text \<open>The first statements of the loop bodies of \<open>tkvdb_smallest\<close> and
  \<open>tkvdb_biggest\<close>: the prefix of the node is appended to the key of the
  cursor.\<close>

definition append_node_prefix :: "cstate \<Rightarrow> tkvdb_memnode \<Rightarrow> (TKVDB_RES \<times> cstate) outcome" where
  "append_node_prefix cs n =
     (if prefix_size n > 0 then
        (case tkvdb_cursor_expand_prefix cs (int (prefix_size n)) of
           Crash \<Rightarrow> Crash
         | Done (r, cs1) \<Rightarrow>
             if r \<noteq> TKVDB_OK then Done (r, cs1)
             else
               (case memread (prefix_val_meta n) 0 (prefix_size n) of
                  None \<Rightarrow> Crash
                | Some bs \<Rightarrow> prefix_store cs1 bs))
      else Done (TKVDB_OK, cs))"

partial_function (option) tkvdb_smallest ::
  "cstate \<Rightarrow> nat \<Rightarrow> (TKVDB_RES \<times> cstate) outcome option" where
  "tkvdb_smallest cs node0 =
     (case TKVDB_SKIP_RNODES (fst cs) node0 of
        None \<Rightarrow> None
      | Some Crash \<Rightarrow> Some Crash
      | Some (Done node) \<Rightarrow>
          (case heap (fst cs) node of
             None \<Rightarrow> Some Crash
           | Some n \<Rightarrow>
               TKVDB_EXEC (Some (append_node_prefix cs n)) (\<lambda>cs1.
                 if has_flag (ntype n) TKVDB_NODE_VAL
                 then Some (tkvdb_cursor_push cs1 node (- 1))
                 else
                   (case cs1 of
                      (w1, tr1, c1) \<Rightarrow>
                        (case TKVDB_SUBNODE_SEARCH w1 tr1 node 0 True of
                           Crash \<Rightarrow> Some Crash
                         | Done (r, nx, off, w2, tr2) \<Rightarrow>
                             if r \<noteq> TKVDB_OK then Some (Done (r, w2, tr2, c1))
                             else
                               (case nx of
                                  None \<Rightarrow> Some (Done (TKVDB_CORRUPTED, w2, tr2, c1))
                                | Some nxt_node \<Rightarrow>
                                    TKVDB_EXEC (Some (tkvdb_cursor_append_sym (w2, tr2, c1) off))
                                      (\<lambda>cs2.
                                         TKVDB_EXEC (Some (tkvdb_cursor_push cs2 node off))
                                           (\<lambda>cs3. tkvdb_smallest cs3 nxt_node))))))))"

partial_function (option) tkvdb_biggest ::
  "cstate \<Rightarrow> nat \<Rightarrow> (TKVDB_RES \<times> cstate) outcome option" where
  "tkvdb_biggest cs node0 =
     (case TKVDB_SKIP_RNODES (fst cs) node0 of
        None \<Rightarrow> None
      | Some Crash \<Rightarrow> Some Crash
      | Some (Done node) \<Rightarrow>
          (case heap (fst cs) node of
             None \<Rightarrow> Some Crash
           | Some n \<Rightarrow>
               TKVDB_EXEC (Some (append_node_prefix cs n)) (\<lambda>cs1.
                 case cs1 of
                   (w1, tr1, c1) \<Rightarrow>
                     (case TKVDB_SUBNODE_SEARCH w1 tr1 node 255 False of
                        Crash \<Rightarrow> Some Crash
                      | Done (r, nx, off, w2, tr2) \<Rightarrow>
                          if r \<noteq> TKVDB_OK then Some (Done (r, w2, tr2, c1))
                          else
                            (case nx of
                               None \<Rightarrow>
                                 if has_flag (ntype n) TKVDB_NODE_VAL
                                 then Some (tkvdb_cursor_push (w2, tr2, c1) node (- 1))
                                 else Some (Done (TKVDB_CORRUPTED, w2, tr2, c1))
                             | Some nxt_node \<Rightarrow>
                                 TKVDB_EXEC (Some (tkvdb_cursor_append_sym (w2, tr2, c1) off))
                                   (\<lambda>cs2.
                                      TKVDB_EXEC (Some (tkvdb_cursor_push cs2 node off))
                                        (\<lambda>cs3. tkvdb_biggest cs3 nxt_node)))))))"

definition tkvdb_cursor_load_root :: "cstate \<Rightarrow> (TKVDB_RES \<times> cstate) outcome" where
  "tkvdb_cursor_load_root cs =
     (case cs of
        (w, tr, c) \<Rightarrow>
          if root tr = None then
            (case db tr of
               None \<Rightarrow> Done (TKVDB_EMPTY, cs)
             | Some dp \<Rightarrow>
                 (case dbs w dp of
                    None \<Rightarrow> Crash
                  | Some d \<Rightarrow>
                      if filesize (info d) = 0 then Done (TKVDB_EMPTY, cs)
                      else
                        (case tkvdb_node_read w tr (root_off (footer (info d))) of
                           Crash \<Rightarrow> Crash
                         | Done (r, p, w1, tr1) \<Rightarrow> Done (r, w1, tr1\<lparr>root := p\<rparr>, c))))
          else Done (TKVDB_OK, cs))"

definition tkvdb_first :: "cstate \<Rightarrow> (TKVDB_RES \<times> cstate) outcome option" where
  "tkvdb_first cs =
     TKVDB_EXEC (Some (tkvdb_cursor_load_root (tkvdb_cursor_reset cs))) (\<lambda>cs1.
       case root (fst (snd cs1)) of
         None \<Rightarrow> Some Crash
       | Some r \<Rightarrow> tkvdb_smallest cs1 r)"

definition tkvdb_last :: "cstate \<Rightarrow> (TKVDB_RES \<times> cstate) outcome option" where
  "tkvdb_last cs =
     TKVDB_EXEC (Some (tkvdb_cursor_load_root (tkvdb_cursor_reset cs))) (\<lambda>cs1.
       case root (fst (snd cs1)) of
         None \<Rightarrow> Some Crash
       | Some r \<Rightarrow> tkvdb_biggest cs1 r)"

text \<open>\<open>off = &(c->stack[c->stack_size - 1].off)\<close>: the offset of the top frame
  is changed in place.\<close>

definition set_top_off :: "tkvdb_cursor \<Rightarrow> int \<Rightarrow> tkvdb_cursor" where
  "set_top_off c off =
     c\<lparr>stack := (stack c)(stack_size c - 1 := (stack c (stack_size c - 1))\<lparr>vh_off := off\<rparr>)\<rparr>"

partial_function (option) tkvdb_next :: "cstate \<Rightarrow> (TKVDB_RES \<times> cstate) outcome option" where
  "tkvdb_next cs =
     (case cs of
        (w, tr, c) \<Rightarrow>
          if stack_size c < 1 then Some (Done (TKVDB_NOT_FOUND, cs))
          else
            let node = vh_node (stack c (stack_size c - 1));
                off = vh_off (stack c (stack_size c - 1)) + 1;
                c1 = set_top_off c off
            in if off > 255
               then TKVDB_EXEC (Some (tkvdb_cursor_pop (w, tr, c1))) (\<lambda>cs1. tkvdb_next cs1)
               else
                 (case TKVDB_SUBNODE_SEARCH w tr node off True of
                    Crash \<Rightarrow> Some Crash
                  | Done (r, nx, off1, w1, tr1) \<Rightarrow>
                      let c2 = set_top_off c1 off1
                      in if r \<noteq> TKVDB_OK then Some (Done (r, w1, tr1, c2))
                         else
                           (case nx of
                              Some nxt_node \<Rightarrow>
                                TKVDB_EXEC (Some (tkvdb_cursor_append_sym (w1, tr1, c2) off1))
                                  (\<lambda>cs1. tkvdb_smallest cs1 nxt_node)
                            | None \<Rightarrow>
                                TKVDB_EXEC (Some (tkvdb_cursor_pop (w1, tr1, c2)))
                                  (\<lambda>cs1. tkvdb_next cs1))))"

partial_function (option) tkvdb_prev :: "cstate \<Rightarrow> (TKVDB_RES \<times> cstate) outcome option" where
  "tkvdb_prev cs =
     (case cs of
        (w, tr, c) \<Rightarrow>
          if stack_size c < 1 then Some (Done (TKVDB_NOT_FOUND, cs))
          else
            let node = vh_node (stack c (stack_size c - 1));
                off = vh_off (stack c (stack_size c - 1)) - 1;
                c1 = set_top_off c off
            in (case heap w node of
                  None \<Rightarrow> Some Crash
                | Some n \<Rightarrow>
                    if off = - 1 \<and> has_flag (ntype n) TKVDB_NODE_VAL
                    then Some (Done (TKVDB_OK, w, tr, c1))
                    else if off < 0
                    then TKVDB_EXEC (Some (tkvdb_cursor_pop (w, tr, c1))) (\<lambda>cs1. tkvdb_prev cs1)
                    else
                      (case TKVDB_SUBNODE_SEARCH w tr node off False of
                         Crash \<Rightarrow> Some Crash
                       | Done (r, nx, off1, w1, tr1) \<Rightarrow>
                           let c2 = set_top_off c1 off1
                           in if r \<noteq> TKVDB_OK then Some (Done (r, w1, tr1, c2))
                              else
                                (case nx of
                                   Some nxt_node \<Rightarrow>
                                     TKVDB_EXEC (Some (tkvdb_cursor_append_sym (w1, tr1, c2) off1))
                                       (\<lambda>cs1. tkvdb_biggest cs1 nxt_node)
                                 | None \<Rightarrow>
                                     (case heap w1 node of
                                        None \<Rightarrow> Some Crash
                                      | Some n1 \<Rightarrow>
                                          if has_flag (ntype n1) TKVDB_NODE_VAL
                                          then Some (Done (TKVDB_OK, w1, tr1, c2))
                                          else
                                            TKVDB_EXEC (Some (tkvdb_cursor_pop (w1, tr1, c2)))
                                              (\<lambda>cs1. tkvdb_prev cs1))))))"


text \<open>\<open>tkvdb_seek\<close>, from the label \<open>next_byte\<close> on.  At the end of the key the
  source pushes the frame with \<open>*sym\<close>, the byte behind the key.\<close>

partial_function (option) tkvdb_seek_next_byte ::
  "cstate \<Rightarrow> tkvdb_datum \<Rightarrow> TKVDB_SEEK \<Rightarrow> nat \<Rightarrow> nat \<Rightarrow> nat
     \<Rightarrow> (TKVDB_RES \<times> cstate) outcome option" where
  "tkvdb_seek_next_byte cs key seek node sp pi =
     (case heap (fst cs) node of
        None \<Rightarrow> Some Crash
      | Some n \<Rightarrow>
     if sp \<ge> len key then
       (if pi = prefix_size n \<and> has_flag (ntype n) TKVDB_NODE_VAL then
          TKVDB_EXEC (Some (tkvdb_cursor_append cs (prefix_val_meta n) (prefix_size n))) (\<lambda>cs1.
            case byte_at (data key) sp of
              None \<Rightarrow> Some Crash
            | Some s \<Rightarrow> Some (tkvdb_cursor_push cs1 node (uint s)))
        else if seek = TKVDB_SEEK_EQ then Some (Done (TKVDB_NOT_FOUND, cs))
        else
          TKVDB_EXEC (tkvdb_smallest cs node) (\<lambda>cs1.
            if seek = TKVDB_SEEK_LE then tkvdb_prev cs1 else Some (Done (TKVDB_OK, cs1))))
     else
       (case byte_at (data key) sp of
          None \<Rightarrow> Some Crash
        | Some s \<Rightarrow>
     if pi \<ge> prefix_size n then
       (case TKVDB_SUBNODE_NEXT (fst cs) (fst (snd cs)) node (uint s) of
          Crash \<Rightarrow> Some Crash
        | Done (r, nx, w1, tr1) \<Rightarrow>
            let c = snd (snd cs)
            in if r \<noteq> TKVDB_OK then Some (Done (r, w1, tr1, c))
            else
              (case nx of
                 Some nxt_node \<Rightarrow>
                   TKVDB_EXEC (Some (tkvdb_cursor_append (w1, tr1, c) (prefix_val_meta n) (prefix_size n)))
                     (\<lambda>cs1.
                   TKVDB_EXEC (Some (tkvdb_cursor_append_sym cs1 (uint s))) (\<lambda>cs2.
                   TKVDB_EXEC (Some (tkvdb_cursor_push cs2 node (uint s))) (\<lambda>cs3.
                     case TKVDB_SKIP_RNODES (fst cs3) nxt_node of
                       None \<Rightarrow> None
                     | Some Crash \<Rightarrow> Some Crash
                     | Some (Done node1) \<Rightarrow> tkvdb_seek_next_byte cs3 key seek node1 (sp + 1) 0)))
               | None \<Rightarrow>
                   if seek = TKVDB_SEEK_EQ
                   then Some (Done (TKVDB_NOT_FOUND, tkvdb_cursor_reset (w1, tr1, c)))
                   else if seek = TKVDB_SEEK_LE then
                     (case TKVDB_SUBNODE_SEARCH w1 tr1 node (uint s) False of
                        Crash \<Rightarrow> Some Crash
                      | Done (r2, nx2, off, w2, tr2) \<Rightarrow>
                          if r2 \<noteq> TKVDB_OK then Some (Done (r2, w2, tr2, c))
                          else
                            (case nx2 of
                               Some nxt_node \<Rightarrow>
                                 TKVDB_EXEC (Some (tkvdb_cursor_append_sym (w2, tr2, c) off))
                                   (\<lambda>cs1.
                                 TKVDB_EXEC (Some (tkvdb_cursor_push cs1 node off)) (\<lambda>cs2.
                                   tkvdb_biggest cs2 nxt_node))
                             | None \<Rightarrow>
                                 if has_flag (ntype n) TKVDB_NODE_VAL
                                 then Some (Done (TKVDB_OK, w2, tr2, c))
                                 else
                                   TKVDB_EXEC (tkvdb_smallest (w2, tr2, c) node) (\<lambda>cs1.
                                     tkvdb_prev cs1)))
                   else
                     (case TKVDB_SUBNODE_SEARCH w1 tr1 node (uint s) True of
                        Crash \<Rightarrow> Some Crash
                      | Done (r2, nx2, off, w2, tr2) \<Rightarrow>
                          if r2 \<noteq> TKVDB_OK then Some (Done (r2, w2, tr2, c))
                          else
                            (case nx2 of
                               Some nxt_node \<Rightarrow>
                                 TKVDB_EXEC (Some (tkvdb_cursor_append_sym (w2, tr2, c) off))
                                   (\<lambda>cs1.
                                 TKVDB_EXEC (Some (tkvdb_cursor_push cs1 node off)) (\<lambda>cs2.
                                   tkvdb_smallest cs2 nxt_node))
                             | None \<Rightarrow>
                                 TKVDB_EXEC (tkvdb_biggest (w2, tr2, c) node) (\<lambda>cs1.
                                   tkvdb_next cs1)))))
     else
       (case byte_at (prefix_val_meta n) pi of
          None \<Rightarrow> Some Crash
        | Some p \<Rightarrow>
     if p \<noteq> s then
       (if seek = TKVDB_SEEK_EQ then Some (Done (TKVDB_NOT_FOUND, tkvdb_cursor_reset cs))
        else if seek = TKVDB_SEEK_LE then
          (if p < s then tkvdb_biggest cs node
           else
             TKVDB_EXEC (Some (tkvdb_cursor_append cs (prefix_val_meta n) (prefix_size n))) (\<lambda>cs1.
             TKVDB_EXEC (Some (tkvdb_cursor_push cs1 node (- 1))) (\<lambda>cs2.
               tkvdb_prev cs2)))
        else
          (if p > s then tkvdb_smallest cs node
           else
             TKVDB_EXEC (Some (tkvdb_cursor_append cs (prefix_val_meta n) (prefix_size n))) (\<lambda>cs1.
             TKVDB_EXEC (Some (tkvdb_cursor_push cs1 node (uint s))) (\<lambda>cs2.
               tkvdb_next cs2))))
     else tkvdb_seek_next_byte cs key seek node (sp + 1) (pi + 1))))"

definition tkvdb_seek ::
  "cstate \<Rightarrow> tkvdb_datum \<Rightarrow> TKVDB_SEEK \<Rightarrow> (TKVDB_RES \<times> cstate) outcome option" where
  "tkvdb_seek cs key seek =
     TKVDB_EXEC (Some (tkvdb_cursor_load_root cs)) (\<lambda>cs1.
       let cs2 = tkvdb_cursor_reset cs1
       in case root (fst (snd cs2)) of
            None \<Rightarrow> Some Crash
          | Some r \<Rightarrow>
              (case TKVDB_SKIP_RNODES (fst cs2) r of
                 None \<Rightarrow> None
               | Some Crash \<Rightarrow> Some Crash
               | Some (Done node) \<Rightarrow> tkvdb_seek_next_byte cs2 key seek node 0 0))"


subsection \<open>Database handle and transaction life cycle\<close>

definition tkvdb_params_init :: tkvdb_params where
  "tkvdb_params_init =
     \<lparr>write_buf_limit = 2 ^ 64 - 1, write_buf_dynalloc = True,
      p_tr_buf_limit = 2 ^ 64 - 1, p_tr_buf_dynalloc = True\<rparr>"

definition sizeof_tkvdb :: nat where "sizeof_tkvdb = 128"

definition sys_close :: "world \<Rightarrow> nat \<Rightarrow> world" where
  "sys_close w d = w\<lparr>files := (files w)(d := None)\<rparr>"

text \<open>A structure that the source leaves uninitialised (\<open>malloc\<close>, a local
  variable) is taken as all zero.\<close>

definition zero_info :: tkvdb_db_info where
  "zero_info =
     \<lparr>footer = \<lparr>f_type = 0, signature = replicate 8 0, root_off = 0, transaction_size = 0,
                 transaction_id = 0, gap_begin = 0, gap_end = 0\<rparr>,
      filesize = 0\<rparr>"

text \<open>\<open>tkvdb_open\<close>: \<open>opened\<close> is what \<open>open(path, flags, mode)\<close> returned, the
  descriptor or nothing.  The handle is the address of the \<open>malloc\<close>ed
  structure.\<close>

definition tkvdb_open :: "world \<Rightarrow> nat option \<Rightarrow> tkvdb_params option \<Rightarrow> nat option \<times> world" where
  "tkvdb_open w opened user_params =
     (case malloc w sizeof_tkvdb of
        (None, w1) \<Rightarrow> (None, w1)
      | (Some dp, w1) \<Rightarrow>
          let ps = (case user_params of Some up \<Rightarrow> up | None \<Rightarrow> tkvdb_params_init);
              release = (\<lambda>w'. case free w' dp of Crash \<Rightarrow> w' | Done w'' \<Rightarrow> w'')
          in case opened of
               None \<Rightarrow> (None, release w1)
             | Some d \<Rightarrow>
                 (case tkvdb_info_read w1 d zero_info of
                    (r, rinfo, w2) \<Rightarrow>
                      if r \<noteq> TKVDB_OK then (None, release (sys_close w2 d))
                      else if write_buf_dynalloc ps then
                        (Some dp,
                         w2\<lparr>dbs := (dbs w2)(dp \<mapsto>
                               \<lparr>fd = d, info = rinfo, params = ps, write_buf = None,
                                write_buf_allocated = 0\<rparr>)\<rparr>)
                      else
                        (case buf_realloc w2 None (write_buf_limit ps) of
                           (None, w3) \<Rightarrow> (None, release (sys_close w3 d))
                         | (Some b, w3) \<Rightarrow>
                             (Some dp,
                              w3\<lparr>dbs := (dbs w3)(dp \<mapsto>
                                    \<lparr>fd = d, info = rinfo, params = ps, write_buf = Some b,
                                     write_buf_allocated = write_buf_limit ps\<rparr>)\<rparr>))))"

definition tkvdb_tr_create_m :: "world \<Rightarrow> nat option \<Rightarrow> nat \<Rightarrow> bool \<Rightarrow> tkvdb_tr option \<times> world" where
  "tkvdb_tr_create_m w dp limit dynalloc =
     (if \<not> dynalloc then
        (case malloc w limit of
           (None, w1) \<Rightarrow> (None, w1)
         | (Some b, w1) \<Rightarrow>
             (Some \<lparr>db = dp, root = None, started = False, tr_buf = Some b,
                    tr_buf_allocated = 0, tr_buf_ptr = Some b, tr_buf_limit = limit,
                    tr_buf_dynalloc = dynalloc\<rparr>, w1))
      else
        (Some \<lparr>db = dp, root = None, started = False, tr_buf = None,
               tr_buf_allocated = 0, tr_buf_ptr = None, tr_buf_limit = limit,
               tr_buf_dynalloc = dynalloc\<rparr>, w))"

definition tkvdb_tr_create :: "world \<Rightarrow> nat option \<Rightarrow> (tkvdb_tr option \<times> world) outcome" where
  "tkvdb_tr_create w dp =
     (case dp of
        Some p \<Rightarrow>
          (case dbs w p of
             None \<Rightarrow> Crash
           | Some d \<Rightarrow>
               Done (tkvdb_tr_create_m w dp (p_tr_buf_limit (params d))
                       (p_tr_buf_dynalloc (params d))))
      | None \<Rightarrow> Done (tkvdb_tr_create_m w dp (2 ^ 64 - 1) True))"

definition tkvdb_tr_reset :: "world \<Rightarrow> tkvdb_tr \<Rightarrow> (world \<times> tkvdb_tr) outcome option" where
  "tkvdb_tr_reset w tr =
     (let tr1 = tr\<lparr>root := None, tr_buf_allocated := 0, started := False\<rparr>
      in if tr_buf_dynalloc tr then
           (case root tr of
              Some r \<Rightarrow>
                (case tkvdb_node_free w r of
                   None \<Rightarrow> None
                 | Some Crash \<Rightarrow> Some Crash
                 | Some (Done w1) \<Rightarrow> Some (Done (w1, tr1)))
            | None \<Rightarrow> Some (Done (w, tr1)))
         else Some (Done (w, tr1\<lparr>tr_buf_ptr := tr_buf tr\<rparr>)))"

definition tkvdb_begin :: "world \<Rightarrow> tkvdb_tr \<Rightarrow> (TKVDB_RES \<times> world \<times> tkvdb_tr) outcome" where
  "tkvdb_begin w tr =
     (if started tr then Done (TKVDB_OK, w, tr)
      else
        (case db tr of
           None \<Rightarrow> Done (TKVDB_OK, w, tr\<lparr>started := True\<rparr>)
         | Some dp \<Rightarrow>
             (case dbs w dp of
                None \<Rightarrow> Crash
              | Some d \<Rightarrow>
                  (case tkvdb_info_read w (fd d) (info d) of
                     (r, rinfo, w1) \<Rightarrow>
                       if r \<noteq> TKVDB_OK
                       then Done (r, w1\<lparr>dbs := (dbs w1)(dp \<mapsto> d\<lparr>info := rinfo\<rparr>)\<rparr>, tr)
                       else
                         let inf1 =
                               (if filesize rinfo = 0 then rinfo\<lparr>footer := footer zero_info\<rparr>
                                else rinfo\<lparr>footer := (footer rinfo)
                                        \<lparr>transaction_id := transaction_id (footer rinfo) + 1\<rparr>\<rparr>)
                         in Done (TKVDB_OK,
                                  w1\<lparr>dbs := (dbs w1)(dp \<mapsto> d\<lparr>info := inf1\<rparr>)\<rparr>,
                                  tr\<lparr>started := True\<rparr>)))))"

definition tkvdb_rollback :: "world \<Rightarrow> tkvdb_tr \<Rightarrow> (TKVDB_RES \<times> world \<times> tkvdb_tr) outcome option" where
  "tkvdb_rollback w tr =
     (case tkvdb_tr_reset w tr of
        None \<Rightarrow> None
      | Some Crash \<Rightarrow> Some Crash
      | Some (Done (w1, tr1)) \<Rightarrow> Some (Done (TKVDB_OK, w1, tr1)))"


subsection \<open>Commit\<close>

definition tkvdb_writebuf_realloc :: "world \<Rightarrow> tkvdb \<Rightarrow> nat \<Rightarrow> TKVDB_RES \<times> world \<times> tkvdb" where
  "tkvdb_writebuf_realloc w d new_size =
     (if new_size > write_buf_limit (params d) then (TKVDB_ENOMEM, w, d)
      else if new_size > write_buf_allocated d then
        (if \<not> write_buf_dynalloc (params d) then (TKVDB_ENOMEM, w, d)
         else
           (case buf_realloc w (write_buf d) new_size of
              (None, w1) \<Rightarrow> (TKVDB_ENOMEM, w1, d)
            | (Some b, w1) \<Rightarrow>
                (TKVDB_OK, w1, d\<lparr>write_buf := Some b, write_buf_allocated := new_size\<rparr>)))
      else (TKVDB_OK, w, d))"

text \<open>The loop of \<open>tkvdb_node_to_buf\<close> over the 256 slots: for a slot with a file
  offset the symbol is stored at \<open>symbols\<close> and the offset at \<open>ptr\<close>.\<close>

function write_subnodes ::
  "(nat \<Rightarrow> u64) \<Rightarrow> nat \<Rightarrow> byte list \<Rightarrow> nat \<Rightarrow> nat \<Rightarrow> (byte list \<times> nat) option" where
  "write_subnodes fn i buf symbols ptr =
     (if i < 256 then
        (if fn i \<noteq> 0 then
           (case memwrite buf symbols [of_nat i] of
              None \<Rightarrow> None
            | Some b1 \<Rightarrow>
                (case memwrite b1 ptr (le_encode 8 (unat (fn i))) of
                   None \<Rightarrow> None
                 | Some b2 \<Rightarrow> write_subnodes fn (i + 1) b2 (symbols + 1) (ptr + 8)))
         else write_subnodes fn (i + 1) buf symbols ptr)
      else Some (buf, ptr))"
  by pat_completeness auto
termination
  by (relation "measure (\<lambda>(fn, i, buf, symbols, ptr). 256 - i)") auto

definition tkvdb_node_to_buf :: "world \<Rightarrow> nat \<Rightarrow> nat \<Rightarrow> u64 \<Rightarrow> (TKVDB_RES \<times> world) outcome" where
  "tkvdb_node_to_buf w dp node transaction_off =
     (case dbs w dp of
        None \<Rightarrow> Crash
      | Some d \<Rightarrow>
     (case heap w node of
        None \<Rightarrow> Crash
      | Some n \<Rightarrow>
          let iobuf_off = unat (disk_off n - transaction_off)
          in case tkvdb_writebuf_realloc w d (unat (of_nat iobuf_off + disk_size n)) of
               (r, w1, d1) \<Rightarrow>
                 if r \<noteq> TKVDB_OK then Done (r, w1\<lparr>dbs := (dbs w1)(dp \<mapsto> d1)\<rparr>)
                 else
                   (case write_buf d1 of
                      None \<Rightarrow> Crash
                    | Some b0 \<Rightarrow>
                        let hdr = le_encode 4 (unat (disk_size n)) @ [of_int (ntype n)]
                                  @ le_encode 2 (nsubnodes n) @ le_encode 4 (prefix_size n);
                            vs = (if has_flag (ntype n) TKVDB_NODE_VAL
                                  then le_encode 4 (val_size n) else []);
                            ms = (if has_flag (ntype n) TKVDB_NODE_META
                                  then le_encode 4 (meta_size n) else []);
                            ptr = iobuf_off + length (hdr @ vs @ ms)
                        in (case memwrite b0 iobuf_off (hdr @ vs @ ms) of
                              None \<Rightarrow> Crash
                            | Some b1 \<Rightarrow>
                                (case (if nsubnodes n > TKVDB_SUBNODES_THR
                                       then (case memwrite b1 ptr
                                                    (concat (map (\<lambda>i. le_encode 8 (unat (fnext n i)))
                                                               [0..<256])) of
                                               None \<Rightarrow> None
                                             | Some b \<Rightarrow> Some (b, ptr + 8 * 256))
                                       else write_subnodes (fnext n) 0 b1 ptr (ptr + nsubnodes n)) of
                                   None \<Rightarrow> Crash
                                 | Some (b2, ptr2) \<Rightarrow>
                                     (case memread (prefix_val_meta n) 0
                                             (prefix_size n + val_size n + meta_size n) of
                                        None \<Rightarrow> Crash
                                      | Some pvm \<Rightarrow>
                                          (case memwrite b2 ptr2 pvm of
                                             None \<Rightarrow> Crash
                                           | Some b3 \<Rightarrow>
                                               Done (TKVDB_OK,
                                                     w1\<lparr>dbs := (dbs w1)
                                                          (dp \<mapsto> d1\<lparr>write_buf := Some b3\<rparr>)\<rparr>))))))))"

function count_subnodes :: "tkvdb_memnode \<Rightarrow> nat \<Rightarrow> nat" where
  "count_subnodes n i =
     (if i < 256
      then (if nxt n i \<noteq> None \<or> fnext n i \<noteq> 0 then 1 else 0) + count_subnodes n (i + 1)
      else 0)"
  by pat_completeness auto
termination
  by (relation "measure (\<lambda>(n, i). 256 - i)") auto

definition tkvdb_node_calc_disksize :: "tkvdb_memnode \<Rightarrow> tkvdb_memnode" where
  "tkvdb_node_calc_disksize n =
     (let k = count_subnodes n 0;
          s0 = sizeof_disknode - 1;
          s1 = (if has_flag (ntype n) TKVDB_NODE_VAL then s0 + 4 else s0);
          s2 = (if has_flag (ntype n) TKVDB_NODE_META then s1 + 4 else s1);
          s3 = (if k > TKVDB_SUBNODES_THR then s2 + 256 * 8 else s2 + k + k * 8)
      in n\<lparr>nsubnodes := k,
            disk_size := of_nat (s3 + prefix_size n + val_size n + meta_size n)\<rparr>)"

text \<open>The loop of \<open>tkvdb_do_commit\<close> over the nodes of the transaction.  It
  returns \<open>node_off\<close> and \<open>last_node_size\<close>; a result other than \<open>TKVDB_OK\<close> is
  the jump to \<open>fail_node_to_buf\<close>.\<close>

partial_function (option) tkvdb_do_commit_loop ::
  "world \<Rightarrow> nat \<Rightarrow> u64 \<Rightarrow> nat \<Rightarrow> nat \<Rightarrow> (nat \<Rightarrow> tkvdb_visit_helper) \<Rightarrow> nat \<Rightarrow> u64 \<Rightarrow> u64
     \<Rightarrow> (TKVDB_RES \<times> world \<times> u64 \<times> u64) outcome option" where
  "tkvdb_do_commit_loop w dp transaction_off node0 off stk stack_depth node_off last_node_size =
     (case TKVDB_SKIP_RNODES w node0 of
        None \<Rightarrow> None
      | Some Crash \<Rightarrow> Some Crash
      | Some (Done node) \<Rightarrow>
     (case heap w node of
        None \<Rightarrow> Some Crash
      | Some n0 \<Rightarrow>
          let n = (if disk_size n0 = 0
                   then (tkvdb_node_calc_disksize n0)\<lparr>disk_off := node_off\<rparr> else n0);
              last1 = (if disk_size n0 = 0 then disk_size n else last_node_size);
              w1 = set_node w node n;
              off1 = scan_next (nxt n) off
          in (case (if off1 < 256 then nxt n off1 else None) of
                Some nx \<Rightarrow>
                  (case TKVDB_SKIP_RNODES w1 nx of
                     None \<Rightarrow> None
                   | Some Crash \<Rightarrow> Some Crash
                   | Some (Done nx1) \<Rightarrow>
                       if stack_depth \<ge> TKVDB_STACK_MAX_DEPTH then Some Crash
                       else
                         tkvdb_do_commit_loop
                           (set_node w1 node (n\<lparr>fnext := (fnext n)(off1 := node_off + last1)\<rparr>))
                           dp transaction_off nx1 0
                           (stk(stack_depth := \<lparr>vh_node = node, vh_off = int off1\<rparr>))
                           (stack_depth + 1) (node_off + last1) last1)
              | None \<Rightarrow>
                  (case tkvdb_node_to_buf w1 dp node transaction_off of
                     Crash \<Rightarrow> Some Crash
                   | Done (r, w2) \<Rightarrow>
                       if r \<noteq> TKVDB_OK then Some (Done (r, w2, node_off, last1))
                       else if stack_depth = 0 then Some (Done (TKVDB_OK, w2, node_off, last1))
                       else
                         tkvdb_do_commit_loop w2 dp transaction_off
                           (vh_node (stk (stack_depth - 1)))
                           (nat (vh_off (stk (stack_depth - 1))) + 1)
                           stk (stack_depth - 1) node_off last1))))"


text \<open>\<open>tkvdb_tr_reset(tr); return r;\<close>\<close>

definition reset_and_return ::
  "world \<Rightarrow> tkvdb_tr \<Rightarrow> TKVDB_RES \<Rightarrow> (TKVDB_RES \<times> world \<times> tkvdb_tr) outcome option" where
  "reset_and_return w tr r =
     (case tkvdb_tr_reset w tr of
        None \<Rightarrow> None
      | Some Crash \<Rightarrow> Some Crash
      | Some (Done (w1, tr1)) \<Rightarrow> Some (Done (r, w1, tr1)))"

text \<open>The end of \<open>tkvdb_do_commit\<close>, behind the loop: the footer is completed
  in \<open>tr->db->info\<close>, the transaction block and the footer are written.  Only
  the last path runs into \<open>tkvdb_tr_reset\<close>; the error paths return at once.\<close>

definition tkvdb_do_commit_write ::
  "world \<Rightarrow> tkvdb_tr \<Rightarrow> nat \<Rightarrow> u64 option \<Rightarrow> u64 \<Rightarrow> bool \<Rightarrow> u64
     \<Rightarrow> (TKVDB_RES \<times> world \<times> tkvdb_tr) outcome option" where
  "tkvdb_do_commit_write w tr dp gap_end_ptr transaction_off appending node_off =
     (case dbs w dp of
        None \<Rightarrow> Some Crash
      | Some d \<Rightarrow>
          let f1 = (footer (info d))
                     \<lparr>root_off := transaction_off + of_nat sizeof_tr_header,
                      transaction_size := node_off - transaction_off\<rparr>;
              d1 = d\<lparr>info := (info d)\<lparr>footer := f1\<rparr>\<rparr>;
              w1 = w\<lparr>dbs := (dbs w)(dp \<mapsto> d1)\<rparr>
          in case sys_lseek w1 (fd d1) (sint transaction_off) of
               (sk, w2) \<Rightarrow>
                 if sk \<noteq> sint transaction_off then Some (Done (TKVDB_IO_ERROR, w2, tr))
                 else
                   (case write_buf d1 of
                      None \<Rightarrow> Some Crash
                    | Some b0 \<Rightarrow>
                        (case memwrite b0 0 [TKVDB_BLOCKTYPE_TRANSACTION] of
                           None \<Rightarrow> Some Crash
                         | Some b1 \<Rightarrow>
                             let f2 = f1\<lparr>f_type := TKVDB_BLOCKTYPE_FOOTER\<rparr>;
                                 f3 = (case gap_end_ptr of
                                         Some g \<Rightarrow> f2\<lparr>gap_end := g\<rparr>
                                       | None \<Rightarrow> f2)
                             in if appending then
                                  (case memwrite b1 1 (le_encode 8 (unat node_off)) of
                                     None \<Rightarrow> Some Crash
                                   | Some b2 \<Rightarrow>
                                       let wsize = sint (transaction_size f3 + of_nat TKVDB_TR_FTRSIZE);
                                           d2 = d1\<lparr>info := (info d1)\<lparr>footer := f3\<rparr>,
                                                  write_buf := Some b2\<rparr>
                                       in case tkvdb_writebuf_realloc w2 d2
                                                 (unat (word_of_int wsize :: u64)) of
                                            (r, w3, d3) \<Rightarrow>
                                              let w4 = w3\<lparr>dbs := (dbs w3)(dp \<mapsto> d3)\<rparr>
                                              in if r \<noteq> TKVDB_OK then Some (Done (r, w4, tr))
                                                 else
                                                   (case write_buf d3 of
                                                      None \<Rightarrow> Some Crash
                                                    | Some b3 \<Rightarrow>
                                                        (case memwrite b3
                                                                (nat (wsize - int TKVDB_TR_FTRSIZE))
                                                                (encode_footer f3) of
                                                           None \<Rightarrow> Some Crash
                                                         | Some b4 \<Rightarrow>
                                                             (case memread b4 0 (nat wsize) of
                                                                None \<Rightarrow> Some Crash
                                                              | Some out \<Rightarrow>
                                                                  (case sys_write
                                                                          (w4\<lparr>dbs := (dbs w4)
                                                                               (dp \<mapsto> d3\<lparr>write_buf := Some b4\<rparr>)\<rparr>)
                                                                          (fd d3) out of
                                                                     (wr, w5) \<Rightarrow>
                                                                       if wr \<noteq> wsize
                                                                       then Some (Done (TKVDB_IO_ERROR, w5, tr))
                                                                       else reset_and_return w5 tr TKVDB_OK)))))
                                else
                                  let wsize = sint (transaction_size f3);
                                      f4 = f3\<lparr>gap_begin := gap_begin f3 + word_of_int wsize\<rparr>
                                  in (case memwrite b1 1 (le_encode 8 (unat (filesize (info d1)))) of
                                        None \<Rightarrow> Some Crash
                                      | Some b2 \<Rightarrow>
                                          let d2 = d1\<lparr>info := (info d1)\<lparr>footer := f4\<rparr>,
                                                     write_buf := Some b2\<rparr>;
                                              w3 = w2\<lparr>dbs := (dbs w2)(dp \<mapsto> d2)\<rparr>
                                          in (case memread b2 0 (nat wsize) of
                                                None \<Rightarrow> Some Crash
                                              | Some out \<Rightarrow>
                                                  (case sys_write w3 (fd d2) out of
                                                     (wr, w4) \<Rightarrow>
                                                       if wr \<noteq> wsize
                                                       then Some (Done (TKVDB_IO_ERROR, w4, tr))
                                                       else
                                                         (case sys_lseek w4 (fd d2)
                                                                 (sint (filesize (info d2))) of
                                                            (sk2, w5) \<Rightarrow>
                                                              if sk2 \<noteq> sint (filesize (info d2))
                                                              then Some (Done (TKVDB_IO_ERROR, w5, tr))
                                                              else
                                                                (case sys_write w5 (fd d2)
                                                                        (encode_footer f4) of
                                                                   (wr2, w6) \<Rightarrow>
                                                                     if wr2 \<noteq> int TKVDB_TR_FTRSIZE
                                                                     then Some (Done (TKVDB_IO_ERROR, w6, tr))
                                                                     else reset_and_return w6 tr TKVDB_OK))))))))"

text \<open>\<open>tkvdb_do_commit\<close>.  The local \<open>info\<close> is what \<open>tkvdb_info_read\<close> fills;
  the tests on it come before anything is laid out.\<close>

definition tkvdb_do_commit ::
  "world \<Rightarrow> tkvdb_tr \<Rightarrow> u64 option \<Rightarrow> (TKVDB_RES \<times> world \<times> tkvdb_tr) outcome option" where
  "tkvdb_do_commit w tr gap_end_ptr =
     (if \<not> started tr then Some (Done (TKVDB_NOT_STARTED, w, tr))
      else
        (case db tr of
           None \<Rightarrow> reset_and_return w tr TKVDB_OK
         | Some dp \<Rightarrow>
        (case root tr of
           None \<Rightarrow> reset_and_return w tr TKVDB_OK
         | Some rt \<Rightarrow>
        (case dbs w dp of
           None \<Rightarrow> Some Crash
         | Some d \<Rightarrow>
        (case tkvdb_info_read w (fd d) zero_info of
           (r, rinfo, w1) \<Rightarrow>
             if r \<noteq> TKVDB_OK then Some (Done (r, w1, tr))
             else if filesize rinfo \<noteq> filesize (info d) then Some (Done (TKVDB_MODIFIED, w1, tr))
             else if filesize rinfo > 0
                     \<and> transaction_id (footer rinfo) + 1 \<noteq> transaction_id (footer (info d))
               then Some (Done (TKVDB_MODIFIED, w1, tr))
             else
               let in_gap = (filesize rinfo > 0
                             \<and> gap_end (footer rinfo) - gap_begin (footer rinfo)
                                 > of_nat (tr_buf_allocated tr));
                   transaction_off =
                     (if filesize rinfo > 0
                      then (if in_gap then gap_begin (footer rinfo) else filesize rinfo)
                      else 0);
                   appending = (\<not> in_gap);
                   d1 = (if filesize rinfo > 0 then d
                         else d\<lparr>info := (info d)
                                 \<lparr>footer := (footer (info d))\<lparr>signature := TKVDB_SIGNATURE\<rparr>\<rparr>\<rparr>);
                   w2 = w1\<lparr>dbs := (dbs w1)(dp \<mapsto> d1)\<rparr>;
                   node_off = transaction_off + of_nat sizeof_tr_header
               in (case tkvdb_do_commit_loop w2 dp transaction_off rt 0
                            (\<lambda>_. \<lparr>vh_node = 0, vh_off = 0\<rparr>) 0 node_off 0 of
                     None \<Rightarrow> None
                   | Some Crash \<Rightarrow> Some Crash
                   | Some (Done (r1, w3, node_off1, last_node_size)) \<Rightarrow>
                       if r1 \<noteq> TKVDB_OK then reset_and_return w3 tr r1
                       else
                         tkvdb_do_commit_write w3 tr dp gap_end_ptr transaction_off appending
                           (node_off1 + last_node_size)))))))"

definition tkvdb_commit :: "world \<Rightarrow> tkvdb_tr \<Rightarrow> (TKVDB_RES \<times> world \<times> tkvdb_tr) outcome option" where
  "tkvdb_commit w tr = tkvdb_do_commit w tr None"


subsection \<open>Sessions\<close>

text \<open>
  A client of the library: it opens the database file (descriptor 3 of a
  machine with nothing allocated), creates a transaction and makes a sequence
  of calls.  Keys and values are C strings, handed over without the
  terminating zero byte.  \<open>State\<close> holds the result codes of the calls, the
  store and the transaction they lead to.
\<close>

definition cstr :: "string \<Rightarrow> tkvdb_datum" where
  "cstr s = \<lparr>data = map of_char s @ [0], len = length s\<rparr>"

definition no_datum :: tkvdb_datum where
  "no_datum = \<lparr>data = [], len = 0\<rparr>"

datatype api_call = Begin | Put string string | Del string bool | Commit | Rollback

datatype session = State "TKVDB_RES list" world tkvdb_tr | Crashed | Diverged | NoHandle

fun api :: "world \<Rightarrow> tkvdb_tr \<Rightarrow> api_call \<Rightarrow> (TKVDB_RES \<times> world \<times> tkvdb_tr) outcome option" where
  "api w tr Begin = Some (tkvdb_begin w tr)"
| "api w tr (Put k v) = tkvdb_put w tr (cstr k) (cstr v)"
| "api w tr (Del k p) = tkvdb_del w tr (cstr k) p"
| "api w tr Commit = tkvdb_commit w tr"
| "api w tr Rollback = tkvdb_rollback w tr"

fun run :: "TKVDB_RES list \<Rightarrow> world \<Rightarrow> tkvdb_tr \<Rightarrow> api_call list \<Rightarrow> session" where
  "run rs w tr [] = State rs w tr"
| "run rs w tr (c # cs) =
     (case api w tr c of
        None \<Rightarrow> Diverged
      | Some Crash \<Rightarrow> Crashed
      | Some (Done (r, w1, tr1)) \<Rightarrow> run (rs @ [r]) w1 tr1 cs)"

definition machine :: "byte list \<Rightarrow> world" where
  "machine bs =
     \<lparr>heap = (\<lambda>_. None), allocs = (\<lambda>_. None), brk = 4096, mem_avail = 2 ^ 30,
      dbs = (\<lambda>_. None), files = (\<lambda>_. None)(3 \<mapsto> \<lparr>contents = bs, pos = 0\<rparr>)\<rparr>"

text \<open>\<open>tkvdb_open\<close> on a file with the bytes \<open>bs\<close>, \<open>tkvdb_tr_create(db)\<close>, the
  calls.\<close>

definition db_session :: "byte list \<Rightarrow> api_call list \<Rightarrow> session" where
  "db_session bs cs =
     (case tkvdb_open (machine bs) (Some 3) None of
        (None, w) \<Rightarrow> NoHandle
      | (Some dp, w) \<Rightarrow>
          (case tkvdb_tr_create w (Some dp) of
             Crash \<Rightarrow> Crashed
           | Done (None, w1) \<Rightarrow> NoHandle
           | Done (Some tr, w1) \<Rightarrow> run [] w1 tr cs))"

text \<open>\<open>tkvdb_tr_create(NULL)\<close>: the RAM-only use.\<close>

definition ram_session :: "api_call list \<Rightarrow> session" where
  "ram_session cs =
     (case tkvdb_tr_create (machine []) None of
        Crash \<Rightarrow> Crashed
      | Done (None, w1) \<Rightarrow> NoHandle
      | Done (Some tr, w1) \<Rightarrow> run [] w1 tr cs)"

text \<open>\<open>tkvdb_tr_create_m(NULL, limit, 0)\<close>: nodes from a preallocated buffer.\<close>

definition slab_session :: "nat \<Rightarrow> api_call list \<Rightarrow> session" where
  "slab_session limit cs =
     (case tkvdb_tr_create_m (machine []) None limit False of
        (None, w1) \<Rightarrow> NoHandle
      | (Some tr, w1) \<Rightarrow> run [] w1 tr cs)"

text \<open>Two transactions \<open>A\<close> and \<open>B\<close> on one database handle, their calls
  interleaved.\<close>

datatype who = TrA | TrB

datatype session2 = State2 "TKVDB_RES list" world tkvdb_tr tkvdb_tr | Crashed2 | Diverged2 | NoHandle2

fun run2 :: "TKVDB_RES list \<Rightarrow> world \<Rightarrow> tkvdb_tr \<Rightarrow> tkvdb_tr \<Rightarrow> (who \<times> api_call) list \<Rightarrow> session2" where
  "run2 rs w a b [] = State2 rs w a b"
| "run2 rs w a b ((TrA, c) # cs) =
     (case api w a c of
        None \<Rightarrow> Diverged2
      | Some Crash \<Rightarrow> Crashed2
      | Some (Done (r, w1, a1)) \<Rightarrow> run2 (rs @ [r]) w1 a1 b cs)"
| "run2 rs w a b ((TrB, c) # cs) =
     (case api w b c of
        None \<Rightarrow> Diverged2
      | Some Crash \<Rightarrow> Crashed2
      | Some (Done (r, w1, b1)) \<Rightarrow> run2 (rs @ [r]) w1 a b1 cs)"

definition db_session2 :: "byte list \<Rightarrow> (who \<times> api_call) list \<Rightarrow> session2" where
  "db_session2 bs cs =
     (case tkvdb_open (machine bs) (Some 3) None of
        (None, w) \<Rightarrow> NoHandle2
      | (Some dp, w) \<Rightarrow>
          (case tkvdb_tr_create w (Some dp) of
             Crash \<Rightarrow> Crashed2
           | Done (None, w1) \<Rightarrow> NoHandle2
           | Done (Some a, w1) \<Rightarrow>
               (case tkvdb_tr_create w1 (Some dp) of
                  Crash \<Rightarrow> Crashed2
                | Done (None, w2) \<Rightarrow> NoHandle2
                | Done (Some b, w2) \<Rightarrow> run2 [] w2 a b cs)))"

text \<open>A database file of 75 bytes, as the commit of the single pair
  \<open>("a", "1")\<close> into an empty file leaves it: the transaction header, the root
  node, the footer.\<close>

definition sample_db :: "byte list" where
  "sample_db =
     [0, 26, 0, 0, 0, 0, 0, 0, 0,
      17, 0, 0, 0, 1, 0, 0, 1, 0, 0, 0, 1, 0, 0, 0, 97, 49,
      1, 116, 107, 118, 100, 98, 48, 48, 51,
      9, 0, 0, 0, 0, 0, 0, 0, 26, 0, 0, 0, 0, 0, 0, 0, 0, 0, 0, 0, 0, 0, 0, 0,
      0, 0, 0, 0, 0, 0, 0, 0, 0, 0, 0, 0, 0, 0, 0, 0]"

section \<open>Properties\<close>

subsection \<open>Rules for evaluating the model\<close>

lemma TKVDB_EXEC_weak_cong: "m = m' \<Longrightarrow> TKVDB_EXEC m k = TKVDB_EXEC m' k"
  by simp

lemma TKVDB_EXEC_simps:
  "TKVDB_EXEC None k = None"
  "TKVDB_EXEC (Some Crash) k = Some Crash"
  "TKVDB_EXEC (Some (Done (r, s))) k = (if r \<noteq> TKVDB_OK then Some (Done (r, s)) else k s)"
  by (simp_all add: TKVDB_EXEC_def)

lemmas mem_defs =
  malloc_def free_def align16_def memread_def memwrite_def byte_at_def set_node_def
  has_flag_def sizeof_memnode_def offsetof_prefix_val_meta_def sizeof_tkvdb_def TKVDB_NODE_VAL_def TKVDB_NODE_META_def
  TKVDB_STACK_MAX_DEPTH_def tkvdb_node_alloc_def node_store_def tkvdb_node_new_def
  tkvdb_clone_subnodes_def TKVDB_REPLACE_NODE_def TKVDB_SKIP_RNODES.simps set_next_def
  free_if_dynalloc_def db_nonempty_def tkvdb_node_free_def tkvdb_node_free_loop.simps Let_def

lemmas trie_defs =
  tkvdb_put_def tkvdb_put_next_node_def tkvdb_put_next_byte.simps
  tkvdb_get_def tkvdb_get_walk_def tkvdb_get_next_byte.simps
  tkvdb_del_def tkvdb_del_next_node_def tkvdb_del_next_byte.simps tkvdb_do_del_def
  detach_subnode_def

lemmas file_defs =
  sys_fstat_def sys_lseek_def sys_read_def sys_write_def sys_close_def
  tkvdb_info_read_def encode_footer_def decode_footer_def zero_info_def
  TKVDB_TR_FTRSIZE_def TKVDB_SIGNATURE_def sizeof_tr_header_def sizeof_disknode_def

lemmas session_defs =
  db_session_def db_session2_def ram_session_def slab_session_def machine_def cstr_def no_datum_def
  tkvdb_open_def tkvdb_params_init_def tkvdb_tr_create_def tkvdb_tr_create_m_def
  tkvdb_begin_def tkvdb_tr_reset_def tkvdb_rollback_def

lemmas cursor_defs =
  TKVDB_EXEC_simps tkvdb_first_def tkvdb_last_def tkvdb_seek_def tkvdb_seek_next_byte.simps
  tkvdb_smallest.simps tkvdb_biggest.simps tkvdb_next.simps tkvdb_prev.simps
  tkvdb_cursor_load_root_def tkvdb_cursor_reset_def tkvdb_cursor_create_def
  tkvdb_cursor_push_def tkvdb_cursor_pop_def tkvdb_cursor_append_def
  tkvdb_cursor_append_sym_def prefix_store_def tkvdb_cursor_expand_prefix_def
  buf_realloc_def buf_free_def buf_size_def append_node_prefix_def set_top_off_def
  TKVDB_SUBNODE_NEXT_def tkvdb_cursor_key_def tkvdb_cursor_val_def

lemma le_encode_numeral:
  "le_encode (numeral k) v = of_nat (v mod 256) # le_encode (pred_numeral k) (v div 256)"
  by (simp only: numeral_eq_Suc [of k] le_encode.simps)

lemma replicate_numeral:
  "replicate (numeral k) x = x # replicate (pred_numeral k) x"
  by (simp only: numeral_eq_Suc [of k] replicate.simps)

lemmas commit_defs =
  tkvdb_commit_def tkvdb_do_commit_def tkvdb_do_commit_loop.simps tkvdb_do_commit_write_def
  reset_and_return_def tkvdb_node_to_buf_def tkvdb_writebuf_realloc_def
  tkvdb_node_calc_disksize_def TKVDB_SUBNODES_THR_def buf_realloc_def buf_size_def
  TKVDB_BLOCKTYPE_TRANSACTION_def TKVDB_BLOCKTYPE_FOOTER_def le_encode_numeral
  replicate_numeral

text \<open>A session is evaluated to its state; the state is then what the
  existential statement speaks about.\<close>

lemma session_State_ex:
  "(case s of State rs w tr \<Rightarrow> rs = rs0 \<and> P w tr | Crashed \<Rightarrow> False | Diverged \<Rightarrow> False
      | NoHandle \<Rightarrow> False)
   \<Longrightarrow> \<exists>w tr. s = State rs0 w tr \<and> P w tr"
  by (cases s) auto

lemma session2_State_ex:
  "(case s of State2 rs w a b \<Rightarrow> rs = rs0 \<and> P w a b | Crashed2 \<Rightarrow> False | Diverged2 \<Rightarrow> False
      | NoHandle2 \<Rightarrow> False)
   \<Longrightarrow> \<exists>w a b. s = State2 rs0 w a b \<and> P w a b"
  by (cases s) auto

text \<open>The sample file is what the library writes.\<close>

lemma sample_db_committed:
  "\<exists>w tr. db_session [] [Begin, Put ''a'' ''1'', Commit] = State [TKVDB_OK, TKVDB_OK, TKVDB_OK] w tr
     \<and> map_option contents (files w 3) = Some sample_db"
  by (rule session_State_ex)
     (simp add: session_defs mem_defs trie_defs file_defs commit_defs sample_db_def)

subsection \<open>C1: round trip of \<open>put\<close> and \<open>get\<close>\<close>

text \<open>
  C1 states that a value written by \<open>put(k, v)\<close> and not deleted or overwritten
  afterwards is what \<open>get(k)\<close> returns.  The code breaks this for a key whose
  node lost its value bit: \<open>del\<close> of a key with subnodes clears
  \<open>TKVDB_NODE_VAL\<close> and keeps \<open>val_size\<close>; a later \<open>put\<close> of a value of the same
  length takes the branch that copies the bytes in place and returns
  \<open>TKVDB_OK\<close> without setting the bit again.  In the session below all six
  calls return \<open>TKVDB_OK\<close>, the last one being \<open>put("ab", "9")\<close>, and
  \<open>get("ab")\<close> returns \<open>TKVDB_NOT_FOUND\<close>.
\<close>

theorem C1_put_after_del_not_found:
  "\<exists>w tr.
     db_session []
       [Begin, Put ''a'' ''1'', Put ''ab'' ''2'', Put ''abc'' ''3'', Del ''ab'' False,
        Put ''ab'' ''9'']
       = State [TKVDB_OK, TKVDB_OK, TKVDB_OK, TKVDB_OK, TKVDB_OK, TKVDB_OK] w tr
     \<and> tkvdb_get w tr (cstr ''ab'') no_datum = Some (Done (TKVDB_NOT_FOUND, no_datum, w, tr))"
  by (rule session_State_ex) (simp add: session_defs mem_defs trie_defs file_defs)


subsection \<open>C2: order of a traversal\<close>

text \<open>
  C2 states that a traversal with \<open>first\<close> and \<open>next\<close> yields every two keys
  of the trie in byte order (and \<open>last\<close>, \<open>prev\<close> in the reverse order).  The code
  breaks this once deletions have left a node without value and without
  subnodes in the trie: \<open>tkvdb_do_del\<close> detaches the deleted leaf only, and
  \<open>tkvdb_smallest\<close> returns \<open>TKVDB_CORRUPTED\<close> when it descends into such a
  node.  In the session below the keys \<open>"b"\<close> and \<open>"c"\<close> are in the trie
  (\<open>get\<close> returns their values), and \<open>first\<close> returns \<open>TKVDB_CORRUPTED\<close>: the
  traversal yields neither of them.
\<close>

theorem C2_first_corrupted_after_deletes:
  "\<exists>w tr.
     db_session []
       [Begin, Put ''ab'' ''1'', Put ''ac'' ''2'', Put ''b'' ''3'', Del ''ab'' False,
        Del ''ac'' False, Put ''c'' ''4'']
       = State [TKVDB_OK, TKVDB_OK, TKVDB_OK, TKVDB_OK, TKVDB_OK, TKVDB_OK, TKVDB_OK] w tr
     \<and> (tkvdb_get w tr (cstr ''b'') no_datum
         = Some (Done (TKVDB_OK, \<lparr>data = map of_char ''3'', len = 1\<rparr>, w, tr))
     \<and> tkvdb_get w tr (cstr ''c'') no_datum
         = Some (Done (TKVDB_OK, \<lparr>data = map of_char ''4'', len = 1\<rparr>, w, tr))
     \<and> (\<exists>cs. tkvdb_first (w, tr, tkvdb_cursor_create) = Some (Done (TKVDB_CORRUPTED, cs))))"
  by (rule session_State_ex)
     (simp add: session_defs mem_defs trie_defs file_defs cursor_defs
        cong: TKVDB_EXEC_weak_cong)

subsection \<open>C3: the modes of \<open>seek\<close>\<close>

text \<open>
  C3 states that \<open>seek(k, GE)\<close> positions the cursor on the smallest key not
  below \<open>k\<close> and \<open>seek(k, LE)\<close> on the largest key not above \<open>k\<close>.  The code
  breaks this in two branches of \<open>tkvdb_seek\<close>.  Where the prefix of a node is
  exhausted and the node has no subnode for the next byte of the key, the
  neighbouring subnode is entered without the prefix of the node being
  appended to the key of the cursor (the branch with a subnode appends it):
  with the keys \<open>"abcd"\<close> and \<open>"abcf"\<close>, \<open>seek("abce", GE)\<close> returns \<open>TKVDB_OK\<close>
  with the cursor key \<open>"f"\<close>, and \<open>seek("abce", LE)\<close> with the cursor key \<open>"d"\<close>.
  Where the prefix of a node is below the key, \<open>GE\<close> pushes the node with the
  byte of the key and calls \<open>next\<close>, which goes on among the subnodes of that
  node: with the keys \<open>"b"\<close> and \<open>"bx"\<close>, \<open>seek("c", GE)\<close> returns \<open>TKVDB_OK\<close> on
  \<open>"bx"\<close>, a key below \<open>"c"\<close>.
\<close>

theorem C3_seek_wrong_position:
  "(\<exists>w tr.
      db_session [] [Begin, Put ''abcd'' ''X'', Put ''abcf'' ''Y'']
        = State [TKVDB_OK, TKVDB_OK, TKVDB_OK] w tr
      \<and> ((\<exists>w1 tr1 c.
            tkvdb_seek (w, tr, tkvdb_cursor_create) (cstr ''abce'') TKVDB_SEEK_GE
              = Some (Done (TKVDB_OK, w1, tr1, c))
            \<and> tkvdb_cursor_key c = map of_char ''f'')
      \<and> (\<exists>w1 tr1 c.
            tkvdb_seek (w, tr, tkvdb_cursor_create) (cstr ''abce'') TKVDB_SEEK_LE
              = Some (Done (TKVDB_OK, w1, tr1, c))
            \<and> tkvdb_cursor_key c = map of_char ''d'')))
   \<and> (\<exists>w tr.
      db_session [] [Begin, Put ''b'' ''X'', Put ''bx'' ''Y'']
        = State [TKVDB_OK, TKVDB_OK, TKVDB_OK] w tr
      \<and> (\<exists>w1 tr1 c.
            tkvdb_seek (w, tr, tkvdb_cursor_create) (cstr ''c'') TKVDB_SEEK_GE
              = Some (Done (TKVDB_OK, w1, tr1, c))
            \<and> tkvdb_cursor_key c = map of_char ''bx''))"
proof (rule conjI)
  show "\<exists>w tr.
      db_session [] [Begin, Put ''abcd'' ''X'', Put ''abcf'' ''Y'']
        = State [TKVDB_OK, TKVDB_OK, TKVDB_OK] w tr
      \<and> ((\<exists>w1 tr1 c.
            tkvdb_seek (w, tr, tkvdb_cursor_create) (cstr ''abce'') TKVDB_SEEK_GE
              = Some (Done (TKVDB_OK, w1, tr1, c))
            \<and> tkvdb_cursor_key c = map of_char ''f'')
      \<and> (\<exists>w1 tr1 c.
            tkvdb_seek (w, tr, tkvdb_cursor_create) (cstr ''abce'') TKVDB_SEEK_LE
              = Some (Done (TKVDB_OK, w1, tr1, c))
            \<and> tkvdb_cursor_key c = map of_char ''d''))"
    by (rule session_State_ex)
       (simp add: session_defs mem_defs trie_defs file_defs cursor_defs
          cong: TKVDB_EXEC_weak_cong)
  show "\<exists>w tr.
      db_session [] [Begin, Put ''b'' ''X'', Put ''bx'' ''Y'']
        = State [TKVDB_OK, TKVDB_OK, TKVDB_OK] w tr
      \<and> (\<exists>w1 tr1 c.
            tkvdb_seek (w, tr, tkvdb_cursor_create) (cstr ''c'') TKVDB_SEEK_GE
              = Some (Done (TKVDB_OK, w1, tr1, c))
            \<and> tkvdb_cursor_key c = map of_char ''bx'')"
    by (rule session_State_ex)
       (simp add: session_defs mem_defs trie_defs file_defs cursor_defs
          cong: TKVDB_EXEC_weak_cong)
qed

subsection \<open>C4: \<open>del\<close> of one key\<close>

text \<open>
  C4 states that \<open>del(k, 0)\<close> of a present key removes this key and leaves
  every other key with its value, also when \<open>k\<close> is the prefix of the root
  node.  The code breaks this at the root: for a match without a parent
  \<open>tkvdb_do_del\<close> frees the root with all its subnodes, whatever \<open>del_pfx\<close> is,
  while the branch for a node with a parent keeps the subnodes and clears the
  value bit.  With the keys \<open>"a"\<close> and \<open>"ab"\<close>, \<open>get("ab")\<close> returns \<open>"2"\<close>
  before \<open>del("a", 0)\<close> and \<open>TKVDB_NOT_FOUND\<close> after it.
\<close>

theorem C4_del_root_loses_other_keys:
  "(\<exists>w tr.
      db_session [] [Begin, Put ''a'' ''1'', Put ''ab'' ''2'']
        = State [TKVDB_OK, TKVDB_OK, TKVDB_OK] w tr
      \<and> tkvdb_get w tr (cstr ''ab'') no_datum
          = Some (Done (TKVDB_OK, \<lparr>data = map of_char ''2'', len = 1\<rparr>, w, tr)))
   \<and> (\<exists>w tr.
      db_session [] [Begin, Put ''a'' ''1'', Put ''ab'' ''2'', Del ''a'' False]
        = State [TKVDB_OK, TKVDB_OK, TKVDB_OK, TKVDB_OK] w tr
      \<and> (tkvdb_get w tr (cstr ''a'') no_datum = Some (Done (TKVDB_NOT_FOUND, no_datum, w, tr))
      \<and> tkvdb_get w tr (cstr ''ab'') no_datum = Some (Done (TKVDB_NOT_FOUND, no_datum, w, tr))))"
proof (rule conjI)
  show "\<exists>w tr.
      db_session [] [Begin, Put ''a'' ''1'', Put ''ab'' ''2'']
        = State [TKVDB_OK, TKVDB_OK, TKVDB_OK] w tr
      \<and> tkvdb_get w tr (cstr ''ab'') no_datum
          = Some (Done (TKVDB_OK, \<lparr>data = map of_char ''2'', len = 1\<rparr>, w, tr))"
    by (rule session_State_ex) (simp add: session_defs mem_defs trie_defs file_defs)
  show "\<exists>w tr.
      db_session [] [Begin, Put ''a'' ''1'', Put ''ab'' ''2'', Del ''a'' False]
        = State [TKVDB_OK, TKVDB_OK, TKVDB_OK, TKVDB_OK] w tr
      \<and> (tkvdb_get w tr (cstr ''a'') no_datum = Some (Done (TKVDB_NOT_FOUND, no_datum, w, tr))
      \<and> tkvdb_get w tr (cstr ''ab'') no_datum = Some (Done (TKVDB_NOT_FOUND, no_datum, w, tr)))"
    by (rule session_State_ex) (simp add: session_defs mem_defs trie_defs file_defs)
qed

subsection \<open>C7: the preallocated buffer\<close>

text \<open>
  C7 states that in the preallocated mode an allocation that would take more
  than \<open>limit\<close> bytes from the buffer, the alignment padding included, fails
  with \<open>TKVDB_ENOMEM\<close> before anything is written behind the buffer.  The code
  compares \<open>tr_buf_allocated + node_size\<close> with the limit and leaves the padding
  out (the source marks the place \<open>FIXME: don't hardcode! check space!\<close>).
  With a buffer of 8345 bytes at address 4096, the first node (4177 bytes)
  leaves the bump pointer at 8273; the second allocation of 4168 bytes passes
  the test (4177 + 4168 = 8345), is placed at 8288 and ends at 12456, behind the
  end 12441 of the buffer, and the initialisation of the node in \<open>tkvdb_put\<close>
  writes behind the buffer.
\<close>

theorem C7_slab_overflow:
  "\<exists>w tr.
     slab_session 8345 [Begin, Put ''k'' ''12345678''] = State [TKVDB_OK, TKVDB_OK] w tr
     \<and> (tr_buf tr = Some 4096 \<and> tr_buf_limit tr = 8345 \<and> tr_buf_allocated tr = 4177
     \<and> tkvdb_node_alloc w tr sizeof_memnode
         = Done (Some 8288, w, tr\<lparr>tr_buf_ptr := Some 12456, tr_buf_allocated := 8345\<rparr>)
     \<and> tkvdb_put w tr (cstr ''x'') (cstr ''y'') = Some Crash)"
  by (rule session_State_ex) (simp add: session_defs mem_defs trie_defs file_defs)

subsection \<open>C8: \<open>get\<close> without a database\<close>

text \<open>
  C8 states that on a started RAM-only transaction with a non-empty trie
  \<open>get\<close> returns the stored value or \<open>TKVDB_NOT_FOUND\<close> and never treats the
  missing database as a database.  The code breaks this: behind the root check
  \<open>tkvdb_get\<close> evaluates \<open>tr->db->info.footer.root_off\<close> on every path, so that
  with \<open>tr->db == NULL\<close> and a root every call dereferences the null pointer
  (\<open>tkvdb_put\<close> and \<open>tkvdb_del\<close> test \<open>tr->db\<close> first).
\<close>

theorem C8_get_without_database:
  "db tr = None \<Longrightarrow> started tr \<Longrightarrow> root tr = Some node
     \<Longrightarrow> tkvdb_get w tr key val = Some Crash"
  by (simp add: tkvdb_get_def tkvdb_get_walk_def)

theorem C8_get_without_database_witness:
  "\<exists>w tr. ram_session [Begin, Put ''a'' ''1''] = State [TKVDB_OK, TKVDB_OK] w tr
      \<and> db tr = None \<and> started tr \<and> root tr = Some 4096
      \<and> tkvdb_get w tr (cstr ''a'') no_datum = Some Crash"
proof -
  have "\<exists>w tr. ram_session [Begin, Put ''a'' ''1''] = State [TKVDB_OK, TKVDB_OK] w tr
      \<and> (db tr = None \<and> started tr \<and> root tr = Some 4096)"
    by (rule session_State_ex) (simp add: session_defs mem_defs trie_defs file_defs)
  then obtain w tr where
    s: "ram_session [Begin, Put ''a'' ''1''] = State [TKVDB_OK, TKVDB_OK] w tr"
    and h: "db tr = None" "started tr" "root tr = Some 4096"
    by blast
  have "tkvdb_get w tr (cstr ''a'') no_datum = Some Crash"
    by (rule C8_get_without_database [OF h])
  with s h show ?thesis by blast
qed

subsection \<open>C10: commit of a transaction without a node\<close>

text \<open>
  C10: for a started transaction on a database whose root is still null,
  \<open>commit\<close> returns \<open>TKVDB_OK\<close> and writes nothing: the store, and with it the
  file, its footer and the handle, is what it was, and the transaction is idle
  again (not started, nothing allocated, the bump pointer at the start of a
  preallocated buffer).
\<close>

theorem C10_commit_without_mutation:
  assumes "started tr" and "db tr = Some dp" and "root tr = None"
  shows "tkvdb_commit w tr
           = Some (Done (TKVDB_OK, w,
                tr\<lparr>root := None, tr_buf_allocated := 0, started := False,
                   tr_buf_ptr := (if tr_buf_dynalloc tr then tr_buf_ptr tr else tr_buf tr)\<rparr>))"
  using assms
  by (simp add: tkvdb_commit_def tkvdb_do_commit_def reset_and_return_def tkvdb_tr_reset_def)

theorem C10_commit_without_mutation_witness:
  "\<exists>w tr. db_session sample_db [Begin] = State [TKVDB_OK] w tr
     \<and> started tr \<and> db tr = Some 4096 \<and> root tr = None
     \<and> map_option contents (files w 3) = Some sample_db
     \<and> (\<exists>tr1. tkvdb_commit w tr = Some (Done (TKVDB_OK, w, tr1)) \<and> \<not> started tr1)"
proof -
  have "\<exists>w tr. db_session sample_db [Begin] = State [TKVDB_OK] w tr
     \<and> (started tr \<and> db tr = Some 4096 \<and> root tr = None
     \<and> map_option contents (files w 3) = Some sample_db)"
    by (rule session_State_ex) (simp add: session_defs mem_defs file_defs sample_db_def)
  then obtain w tr where s: "db_session sample_db [Begin] = State [TKVDB_OK] w tr"
    and h: "started tr" "db tr = Some 4096" "root tr = None"
    and f: "map_option contents (files w 3) = Some sample_db"
    by blast
  have "tkvdb_commit w tr
           = Some (Done (TKVDB_OK, w,
                tr\<lparr>root := None, tr_buf_allocated := 0, started := False,
                   tr_buf_ptr := (if tr_buf_dynalloc tr then tr_buf_ptr tr else tr_buf tr)\<rparr>))"
    by (rule C10_commit_without_mutation [OF h])
  then have "\<exists>tr1. tkvdb_commit w tr = Some (Done (TKVDB_OK, w, tr1)) \<and> \<not> started tr1"
    by simp
  with s h f show ?thesis by blast
qed

end
